theory Spec2Isabelle
  imports Main "HOL-Library.Word" "HOL-Library.Sublist"
begin

section \<open>Python values and exceptions\<close>

text \<open>
  The agent handles whatever \<^verbatim>\<open>json.loads\<close> produced from the intent extractor's
  reply, so the model works on Python values of JSON shape. A float is kept as its
  IEEE-754 bit pattern; a dict is an association list in insertion order.
\<close>

datatype pyval =
    PNone
  | PBool bool
  | PInt int
  | PFloat "64 word"
  | PStr string
  | PList "pyval list"
  | PDict "(string \<times> pyval) list"

type_synonym pydict = "(string \<times> pyval) list"

text \<open>
  An exception is its class and the text \<^verbatim>\<open>str(e)\<close> yields. Only subclasses of
  \<^verbatim>\<open>Exception\<close> are modelled. For errors raised by the interpreter or the standard
  library the text follows CPython 3.11's wording where that is fixed; no property below
  depends on it.
\<close>

datatype exn_class =
    JSONDecodeError | TypeError | AttributeError | KeyError | ValueError
  | OverflowError | OtherError

datatype exn = Exn exn_class string

fun exn_class_of :: "exn \<Rightarrow> exn_class" where
  "exn_class_of (Exn c t) = c"

fun str_exn :: "exn \<Rightarrow> string" where
  "str_exn (Exn c t) = t"

definition quote :: "string \<Rightarrow> string" where
  "quote s = CHR 0x27 # s @ [CHR 0x27]"

fun type_name :: "pyval \<Rightarrow> string" where
  "type_name PNone = ''NoneType''"
| "type_name (PBool b) = ''bool''"
| "type_name (PInt i) = ''int''"
| "type_name (PFloat f) = ''float''"
| "type_name (PStr s) = ''str''"
| "type_name (PList l) = ''list''"
| "type_name (PDict d) = ''dict''"

text \<open>Truth value of an object, as \<^verbatim>\<open>if x:\<close> and \<^verbatim>\<open>not x\<close> test it.\<close>

fun truthy :: "pyval \<Rightarrow> bool" where
  "truthy PNone = False"
| "truthy (PBool b) = b"
| "truthy (PInt i) = (i \<noteq> 0)"
| "truthy (PFloat f) = (f \<noteq> 0 \<and> f \<noteq> 0x8000000000000000)"
| "truthy (PStr s) = (s \<noteq> [])"
| "truthy (PList l) = (l \<noteq> [])"
| "truthy (PDict d) = (d \<noteq> [])"

text \<open>\<^verbatim>\<open>d.get(k, default)\<close>: only a dict has the method.\<close>

definition dict_get :: "pydict \<Rightarrow> string \<Rightarrow> pyval \<Rightarrow> pyval" where
  "dict_get d k dflt = (case map_of d k of Some v \<Rightarrow> v | None \<Rightarrow> dflt)"

definition no_attribute_get :: "pyval \<Rightarrow> exn" where
  "no_attribute_get v =
     Exn AttributeError (quote (type_name v) @ '' object has no attribute '' @ quote ''get'')"

fun py_get :: "pyval \<Rightarrow> string \<Rightarrow> pyval \<Rightarrow> exn + pyval" where
  "py_get (PDict d) k dflt = Inr (dict_get d k dflt)"
| "py_get v k dflt = Inl (no_attribute_get v)"

text \<open>\<^verbatim>\<open>d[k]\<close> on a dict.\<close>

definition dict_getitem :: "pydict \<Rightarrow> string \<Rightarrow> exn + pyval" where
  "dict_getitem d k = (case map_of d k of Some v \<Rightarrow> Inr v | None \<Rightarrow> Inl (Exn KeyError (quote k)))"

text \<open>\<^verbatim>\<open>d[k] = v\<close>: an existing key keeps its place, a new key goes last.\<close>

fun dict_set :: "pydict \<Rightarrow> string \<Rightarrow> pyval \<Rightarrow> pydict" where
  "dict_set [] k v = [(k, v)]"
| "dict_set ((k', v') # d) k v = (if k' = k then (k, v) # d else (k', v') # dict_set d k v)"

text \<open>The dict display \<^verbatim>\<open>{**c, k: v}\<close>: unpacking needs a mapping.\<close>

fun spread_with :: "pyval \<Rightarrow> string \<Rightarrow> pyval \<Rightarrow> exn + pyval" where
  "spread_with (PDict d) k v = Inr (PDict (dict_set d k v))"
| "spread_with c k v = Inl (Exn TypeError (quote (type_name c) @ '' object is not a mapping''))"

text \<open>\<^verbatim>\<open>len(x) == 0\<close>.\<close>

fun len_is_zero :: "pyval \<Rightarrow> exn + bool" where
  "len_is_zero (PStr s) = Inr (s = [])"
| "len_is_zero (PList l) = Inr (l = [])"
| "len_is_zero (PDict d) = Inr (d = [])"
| "len_is_zero v = Inl (Exn TypeError (''object of type '' @ quote (type_name v) @ '' has no len()''))"

text \<open>\<^verbatim>\<open>x != 60\<close> (\<^verbatim>\<open>True == 1\<close>, and \<^verbatim>\<open>60.0\<close> has the bits \<^verbatim>\<open>0x404E000000000000\<close>).\<close>

fun ne_60 :: "pyval \<Rightarrow> bool" where
  "ne_60 (PInt i) = (i \<noteq> 60)"
| "ne_60 (PFloat f) = (f \<noteq> 0x404E000000000000)"
| "ne_60 v = True"

section \<open>Decimal text\<close>

definition digit_char :: "nat \<Rightarrow> char" where
  "digit_char n = ''0123456789'' ! n"

fun str_nat :: "nat \<Rightarrow> string" where
  "str_nat n = (if n < 10 then [digit_char n] else str_nat (n div 10) @ [digit_char (n mod 10)])"

declare str_nat.simps [simp del]

definition str_int :: "int \<Rightarrow> string" where
  "str_int i = (if i < 0 then CHR ''-'' # str_nat (nat (- i)) else str_nat (nat i))"

text \<open>The conversion \<^verbatim>\<open>%02d\<close> for a number between 0 and 99.\<close>

definition two_digits :: "int \<Rightarrow> string" where
  "two_digits i = [digit_char (nat i div 10), digit_char (nat i mod 10)]"

text \<open>\<^verbatim>\<open>', '.join(xs)\<close>.\<close>

fun join_comma :: "string list \<Rightarrow> string" where
  "join_comma [] = []"
| "join_comma [x] = x"
| "join_comma (x # y # ys) = x @ '', '' @ join_comma (y # ys)"

section \<open>Naive datetimes\<close>

text \<open>
  A naive \<^verbatim>\<open>datetime\<close> is the number of microseconds since 0001-01-01T00:00:00;
  the type holds the instants up to 9999-12-31T23:59:59.999999 (day 3652059 of the
  proleptic calendar). Comparison of naive datetimes is comparison of these numbers.
\<close>

type_synonym datetime = int

definition us_per_minute :: int where "us_per_minute = 60000000"
definition us_per_hour :: int where "us_per_hour = 3600000000"
definition us_per_day :: int where "us_per_day = 86400000000"

definition datetime_max :: datetime where
  "datetime_max = 3652059 * us_per_day - 1"

definition valid_datetime :: "datetime \<Rightarrow> bool" where
  "valid_datetime t = (0 \<le> t \<and> t \<le> datetime_max)"

definition hour :: "datetime \<Rightarrow> int" where
  "hour t = (t mod us_per_day) div us_per_hour"

definition minute :: "datetime \<Rightarrow> int" where
  "minute t = (t mod us_per_hour) div us_per_minute"

text \<open>\<^verbatim>\<open>t.replace(hour=h, minute=m, second=0, microsecond=0)\<close>, for 0 \<le> h < 24, 0 \<le> m < 60.\<close>

definition replace_hm :: "datetime \<Rightarrow> int \<Rightarrow> int \<Rightarrow> datetime" where
  "replace_hm t h m = (t div us_per_day) * us_per_day + h * us_per_hour + m * us_per_minute"

text \<open>\<^verbatim>\<open>t.strftime("%H:%M")\<close>.\<close>

definition strftime_HM :: "datetime \<Rightarrow> string" where
  "strftime_HM t = two_digits (hour t) @ '':'' @ two_digits (minute t)"

section \<open>The world outside the program\<close>

text \<open>
  What the program gets from outside is a parameter of the model: the clock, the two
  library parsers, the intent extractor (the chat completion endpoint) and the remote
  calendar. Calls that reach outside take the state of the world and return the next
  one, so two calls may get different answers. \<open>float_minutes\<close> is the length in
  microseconds of \<^verbatim>\<open>timedelta(minutes=f)\<close> for a float, \<open>py_repr\<close> is \<^verbatim>\<open>str\<close> on
  floats, lists and dicts.
\<close>

record 'w env =
  now :: "'w \<Rightarrow> datetime \<times> 'w"
  strptime :: "string \<Rightarrow> string \<Rightarrow> exn + datetime"
  json_loads :: "string \<Rightarrow> exn + pyval"
  json_dumps :: "pyval \<Rightarrow> string"
  chat_completion :: "(string \<times> string) list \<Rightarrow> 'w \<Rightarrow> (exn + string option) \<times> 'w"
  events_list :: "datetime \<Rightarrow> datetime \<Rightarrow> 'w \<Rightarrow> (exn + pyval) \<times> 'w"
  events_insert :: "pyval \<Rightarrow> pyval \<Rightarrow> datetime \<Rightarrow> datetime \<Rightarrow> 'w \<Rightarrow> (exn + pyval) \<times> 'w"
  float_minutes :: "64 word \<Rightarrow> exn + int"
  py_repr :: "pyval \<Rightarrow> string"
  system_prompt :: string

text \<open>\<^verbatim>\<open>str(x)\<close>, as the f-strings apply it.\<close>

definition py_str :: "'w env \<Rightarrow> pyval \<Rightarrow> string" where
  "py_str env v = (case v of
      PStr s \<Rightarrow> s
    | PNone \<Rightarrow> ''None''
    | PBool b \<Rightarrow> (if b then ''True'' else ''False'')
    | PInt i \<Rightarrow> str_int i
    | _ \<Rightarrow> py_repr env v)"

text \<open>
  \<^verbatim>\<open>timedelta(minutes=x)\<close> in microseconds: a timedelta holds between -999999999 days
  and 999999999 days 23:59:59.999999. The text of the overflow error names the days when
  they fit a C \<^verbatim>\<open>int\<close>.
\<close>

definition timedelta_overflow :: "int \<Rightarrow> exn" where
  "timedelta_overflow days =
     (if - 2147483648 \<le> days \<and> days \<le> 2147483647
      then Exn OverflowError (''days='' @ str_int days @ ''; must have magnitude <= 999999999'')
      else Exn OverflowError ''Python int too large to convert to C int'')"

definition timedelta_minutes :: "'w env \<Rightarrow> pyval \<Rightarrow> exn + int" where
  "timedelta_minutes env v = (case v of
      PInt n \<Rightarrow>
        (if - 999999999 * us_per_day \<le> n * us_per_minute \<and> n * us_per_minute < 1000000000 * us_per_day
         then Inr (n * us_per_minute)
         else Inl (timedelta_overflow (n * us_per_minute div us_per_day)))
    | PBool b \<Rightarrow> Inr (if b then us_per_minute else 0)
    | PFloat f \<Rightarrow> float_minutes env f
    | _ \<Rightarrow> Inl (Exn TypeError (''unsupported type for timedelta minutes component: '' @ type_name v)))"

definition datetime_add :: "datetime \<Rightarrow> int \<Rightarrow> exn + datetime" where
  "datetime_add t td =
     (if valid_datetime (t + td) then Inr (t + td) else Inl (Exn OverflowError ''date value out of range''))"

text \<open>\<^verbatim>\<open>t + timedelta(minutes=x)\<close>.\<close>

definition plus_minutes :: "'w env \<Rightarrow> datetime \<Rightarrow> pyval \<Rightarrow> exn + datetime" where
  "plus_minutes env t x = (case timedelta_minutes env x of Inl e \<Rightarrow> Inl e | Inr td \<Rightarrow> datetime_add t td)"

section \<open>MockCalendarService\<close>

record mock_event =
  ev_id :: string
  ev_title :: pyval
  ev_start_time :: datetime
  ev_duration :: pyval
  ev_description :: pyval

record MockCalendarService =
  events :: "mock_event list"
  next_event_id :: int

text \<open>\<^verbatim>\<open>MockCalendarService.__init__\<close>.\<close>

definition MockCalendarService_init :: MockCalendarService where
  "MockCalendarService_init = \<lparr>events = [], next_event_id = 1\<rparr>"

text \<open>The loop of \<^verbatim>\<open>check_availability\<close> over the stored events.\<close>

fun check_events :: "'w env \<Rightarrow> datetime \<Rightarrow> datetime \<Rightarrow> mock_event list \<Rightarrow> exn + bool" where
  "check_events env start_time end_time [] = Inr True"
| "check_events env start_time end_time (event # rest) =
     (case plus_minutes env (ev_start_time event) (ev_duration event) of
        Inl e \<Rightarrow> Inl e
      | Inr event_end \<Rightarrow>
          if start_time < event_end \<and> end_time > ev_start_time event then Inr False
          else check_events env start_time end_time rest)"

definition MockCalendarService_check_availability ::
  "'w env \<Rightarrow> MockCalendarService \<Rightarrow> datetime \<Rightarrow> pyval \<Rightarrow> exn + bool" where
  "MockCalendarService_check_availability env self start_time duration_minutes =
     (case plus_minutes env start_time duration_minutes of
        Inl e \<Rightarrow> Inl e
      | Inr end_time \<Rightarrow>
          if hour start_time = 14 then Inr False
          else check_events env start_time end_time (events self))"

definition MockCalendarService_create_event ::
  "MockCalendarService \<Rightarrow> pyval \<Rightarrow> datetime \<Rightarrow> pyval \<Rightarrow> pyval \<Rightarrow> string \<times> MockCalendarService" where
  "MockCalendarService_create_event self title start_time duration_minutes description =
     (let event_id = ''mock_event_'' @ str_int (next_event_id self)
      in (event_id,
          \<lparr>events = events self @
             [\<lparr>ev_id = event_id, ev_title = title, ev_start_time = start_time,
               ev_duration = duration_minutes, ev_description = description\<rparr>],
           next_event_id = next_event_id self + 1\<rparr>))"

text \<open>
  The interval test in the specification's words: two slots conflict iff
  \<^verbatim>\<open>aStart < bEnd && bStart < aEnd\<close>.
\<close>

definition conflict :: "datetime \<Rightarrow> datetime \<Rightarrow> datetime \<Rightarrow> datetime \<Rightarrow> bool" where
  "conflict aStart aEnd bStart bEnd = (aStart < bEnd \<and> bStart < aEnd)"

text \<open>\<^verbatim>\<open>range(start_hour, end_hour)\<close> of \<^verbatim>\<open>suggest_times\<close>.\<close>

definition hour_range :: "bool \<Rightarrow> int list" where
  "hour_range business_hours_only = (if business_hours_only then [9..16] else [8..19])"

text \<open>
  The inner loop of \<^verbatim>\<open>MockCalendarService.suggest_times\<close> over the minutes of one
  hour. The flag of the result says that \<^verbatim>\<open>return suggestions\<close> was executed.
\<close>

fun mock_minute_loop ::
  "'w env \<Rightarrow> MockCalendarService \<Rightarrow> datetime \<Rightarrow> pyval \<Rightarrow> int \<Rightarrow> int list \<Rightarrow> datetime list \<Rightarrow> 'w
     \<Rightarrow> (exn + datetime list \<times> bool) \<times> 'w" where
  "mock_minute_loop env self target_date duration_minutes h [] suggestions w =
     (Inr (suggestions, False), w)"
| "mock_minute_loop env self target_date duration_minutes h (m # ms) suggestions w =
     (let candidate_time = replace_hm target_date h m in
      case now env w of (current, w1) \<Rightarrow>
        if candidate_time < current
        then mock_minute_loop env self target_date duration_minutes h ms suggestions w1
        else
          (case MockCalendarService_check_availability env self candidate_time duration_minutes of
             Inl e \<Rightarrow> (Inl e, w1)
           | Inr available \<Rightarrow>
               (let suggestions' = (if available then suggestions @ [candidate_time] else suggestions) in
                if length suggestions' \<ge> 5 then (Inr (suggestions', True), w1)
                else mock_minute_loop env self target_date duration_minutes h ms suggestions' w1)))"

fun mock_hour_loop ::
  "'w env \<Rightarrow> MockCalendarService \<Rightarrow> datetime \<Rightarrow> pyval \<Rightarrow> int list \<Rightarrow> datetime list \<Rightarrow> 'w
     \<Rightarrow> (exn + datetime list) \<times> 'w" where
  "mock_hour_loop env self target_date duration_minutes [] suggestions w = (Inr suggestions, w)"
| "mock_hour_loop env self target_date duration_minutes (h # hs) suggestions w =
     (case mock_minute_loop env self target_date duration_minutes h [0, 30] suggestions w of
        (Inl e, w') \<Rightarrow> (Inl e, w')
      | (Inr (suggestions', returned), w') \<Rightarrow>
          if returned then (Inr suggestions', w')
          else mock_hour_loop env self target_date duration_minutes hs suggestions' w')"

definition MockCalendarService_suggest_times ::
  "'w env \<Rightarrow> MockCalendarService \<Rightarrow> datetime \<Rightarrow> pyval \<Rightarrow> bool \<Rightarrow> 'w \<Rightarrow> (exn + datetime list) \<times> 'w" where
  "MockCalendarService_suggest_times env self target_date duration_minutes business_hours_only w =
     mock_hour_loop env self target_date duration_minutes (hour_range business_hours_only) [] w"

section \<open>GoogleCalendarService\<close>

text \<open>
  The attribute \<^verbatim>\<open>service\<close> is either the in-memory fake (no credentials file, or
  authentication failed) or the client of the remote calendar.
\<close>

datatype service = Mock MockCalendarService | Live

text \<open>
  On the remote calendar every exception is caught inside the method and answered
  \<^verbatim>\<open>False\<close>; on the fake the call is passed on outside any \<^verbatim>\<open>try\<close>.
\<close>

definition GoogleCalendarService_check_availability ::
  "'w env \<Rightarrow> service \<Rightarrow> datetime \<Rightarrow> pyval \<Rightarrow> 'w \<Rightarrow> (exn + bool) \<times> 'w" where
  "GoogleCalendarService_check_availability env svc start_time duration_minutes w =
     (case svc of
        Mock mock \<Rightarrow> (MockCalendarService_check_availability env mock start_time duration_minutes, w)
      | Live \<Rightarrow>
          (case plus_minutes env start_time duration_minutes of
             Inl e \<Rightarrow> (Inr False, w)
           | Inr end_time \<Rightarrow>
               (case events_list env start_time end_time w of
                  (Inl e, w') \<Rightarrow> (Inr False, w')
                | (Inr events_result, w') \<Rightarrow>
                    (case py_get events_result ''items'' (PList []) of
                       Inl e \<Rightarrow> (Inr False, w')
                     | Inr evs \<Rightarrow>
                         (case len_is_zero evs of
                            Inl e \<Rightarrow> (Inr False, w')
                          | Inr b \<Rightarrow> (Inr b, w'))))))"

text \<open>\<^verbatim>\<open>create_event\<close> once its arguments are bound. It returns the event id or \<^verbatim>\<open>None\<close>.\<close>

definition GoogleCalendarService_create_event ::
  "'w env \<Rightarrow> service \<Rightarrow> pyval \<Rightarrow> datetime \<Rightarrow> pyval \<Rightarrow> pyval \<Rightarrow> 'w \<Rightarrow> pyval \<times> service \<times> 'w" where
  "GoogleCalendarService_create_event env svc title start_time duration_minutes description w =
     (case svc of
        Mock mock \<Rightarrow>
          (case MockCalendarService_create_event mock title start_time duration_minutes description of
             (event_id, mock') \<Rightarrow> (PStr event_id, Mock mock', w))
      | Live \<Rightarrow>
          (case plus_minutes env start_time duration_minutes of
             Inl e \<Rightarrow> (PNone, Live, w)
           | Inr end_time \<Rightarrow>
               (case events_insert env title description start_time end_time w of
                  (Inl e, w') \<Rightarrow> (PNone, Live, w')
                | (Inr event_result, w') \<Rightarrow>
                    (case py_get event_result ''id'' PNone of
                       Inl e \<Rightarrow> (PNone, Live, w')
                     | Inr i \<Rightarrow> (i, Live, w')))))"

text \<open>The loops of \<^verbatim>\<open>GoogleCalendarService.suggest_times\<close> on the remote calendar.\<close>

fun live_minute_loop ::
  "'w env \<Rightarrow> datetime \<Rightarrow> pyval \<Rightarrow> int \<Rightarrow> int list \<Rightarrow> datetime list \<Rightarrow> 'w
     \<Rightarrow> (exn + datetime list) \<times> 'w" where
  "live_minute_loop env target_date duration_minutes h [] suggestions w = (Inr suggestions, w)"
| "live_minute_loop env target_date duration_minutes h (m # ms) suggestions w =
     (let candidate_time = replace_hm target_date h m in
      case now env w of (current, w1) \<Rightarrow>
        if candidate_time < current
        then live_minute_loop env target_date duration_minutes h ms suggestions w1
        else
          (case GoogleCalendarService_check_availability env Live candidate_time duration_minutes w1 of
             (Inl e, w2) \<Rightarrow> (Inl e, w2)
           | (Inr available, w2) \<Rightarrow>
               (let suggestions' = (if available then suggestions @ [candidate_time] else suggestions) in
                if length suggestions' \<ge> 10 then (Inr suggestions', w2)
                else live_minute_loop env target_date duration_minutes h ms suggestions' w2)))"

fun live_hour_loop ::
  "'w env \<Rightarrow> datetime \<Rightarrow> pyval \<Rightarrow> int list \<Rightarrow> datetime list \<Rightarrow> 'w \<Rightarrow> (exn + datetime list) \<times> 'w" where
  "live_hour_loop env target_date duration_minutes [] suggestions w = (Inr suggestions, w)"
| "live_hour_loop env target_date duration_minutes (h # hs) suggestions w =
     (case live_minute_loop env target_date duration_minutes h [0, 30] suggestions w of
        (Inl e, w') \<Rightarrow> (Inl e, w')
      | (Inr suggestions', w') \<Rightarrow>
          if length suggestions' \<ge> 10 then (Inr suggestions', w')
          else live_hour_loop env target_date duration_minutes hs suggestions' w')"

definition GoogleCalendarService_suggest_times ::
  "'w env \<Rightarrow> service \<Rightarrow> datetime \<Rightarrow> pyval \<Rightarrow> bool \<Rightarrow> 'w \<Rightarrow> (exn + datetime list) \<times> 'w" where
  "GoogleCalendarService_suggest_times env svc target_date duration_minutes business_hours_only w =
     (case svc of
        Mock mock \<Rightarrow>
          MockCalendarService_suggest_times env mock target_date duration_minutes business_hours_only w
      | Live \<Rightarrow>
          live_hour_loop env target_date duration_minutes (hour_range business_hours_only) [] w)"

section \<open>The slot suggestion algorithm in the specification's words\<close>

text \<open>
  The candidate start times: the 30-minute grid across the hour range of the date, in
  ascending order.
\<close>

definition grid :: "datetime \<Rightarrow> bool \<Rightarrow> datetime list" where
  "grid target_date business_hours_only =
     concat (map (\<lambda>h. [replace_hm target_date h 0, replace_hm target_date h 30])
       (hour_range business_hours_only))"

text \<open>
  For each candidate: reject it if it is strictly before the current time; ask the
  backend and keep it iff it is available; stop scanning once the cap is reached.
\<close>

fun suggest ::
  "('w \<Rightarrow> datetime \<times> 'w) \<Rightarrow> (datetime \<Rightarrow> 'w \<Rightarrow> (exn + bool) \<times> 'w) \<Rightarrow> nat \<Rightarrow> datetime list
     \<Rightarrow> datetime list \<Rightarrow> 'w \<Rightarrow> (exn + datetime list) \<times> 'w" where
  "suggest clock check cap [] kept w = (Inr kept, w)"
| "suggest clock check cap (c # cs) kept w =
     (case clock w of (current, w1) \<Rightarrow>
        if c < current then suggest clock check cap cs kept w1
        else
          (case check c w1 of
             (Inl e, w2) \<Rightarrow> (Inl e, w2)
           | (Inr available, w2) \<Rightarrow>
               (let kept' = (if available then kept @ [c] else kept) in
                if cap \<le> length kept' then (Inr kept', w2)
                else suggest clock check cap cs kept' w2)))"

text \<open>The availability check and the cap each implementation scans with.\<close>

definition check_of :: "'w env \<Rightarrow> service \<Rightarrow> pyval \<Rightarrow> datetime \<Rightarrow> 'w \<Rightarrow> (exn + bool) \<times> 'w" where
  "check_of env svc duration_minutes c w = GoogleCalendarService_check_availability env svc c duration_minutes w"

fun cap_of :: "service \<Rightarrow> nat" where
  "cap_of (Mock mock) = 5"
| "cap_of Live = 10"

section \<open>AppointmentAgent\<close>

text \<open>\<^verbatim>\<open>ai_response.get('context', {})\<close>.\<close>

definition context_of :: "pydict \<Rightarrow> pyval" where
  "context_of ai_response = dict_get ai_response ''context'' (PDict [])"

text \<open>The dict \<^verbatim>\<open>{"message": m, "context": c}\<close> every handler returns.\<close>

definition response :: "string \<Rightarrow> pyval \<Rightarrow> pyval" where
  "response m c = PDict [(''message'', PStr m), (''context'', c)]"

text \<open>\<^verbatim>\<open>datetime.strptime(x, fmt)\<close>: the first argument must be a \<^verbatim>\<open>str\<close>.\<close>

definition datetime_strptime :: "'w env \<Rightarrow> pyval \<Rightarrow> string \<Rightarrow> exn + datetime" where
  "datetime_strptime env x fmt = (case x of
      PStr s \<Rightarrow> strptime env s fmt
    | _ \<Rightarrow> Inl (Exn TypeError (''strptime() argument 1 must be str, not '' @ type_name x)))"

subsection \<open>\<^verbatim>\<open>_check_availability\<close>\<close>

definition availability_message :: "'w env \<Rightarrow> pyval \<Rightarrow> pyval \<Rightarrow> bool \<Rightarrow> string" where
  "availability_message env date_str time_str is_available =
     (if is_available
      then ''Great! You're available on '' @ py_str env date_str
        @ (if truthy time_str then '' at '' @ py_str env time_str else [])
        @ ''. Would you like me to book an appointment?''
      else ''You have a conflict on '' @ py_str env date_str
        @ (if truthy time_str then '' at '' @ py_str env time_str else [])
        @ ''. Would you like me to suggest some alternative times?'')"

text \<open>The \<^verbatim>\<open>try\<close> block of the handler.\<close>

definition check_availability_try ::
  "'w env \<Rightarrow> service \<Rightarrow> pyval \<Rightarrow> pyval \<Rightarrow> pyval \<Rightarrow> pydict \<Rightarrow> 'w \<Rightarrow> (exn + pyval) \<times> 'w" where
  "check_availability_try env svc date_str time_str duration ai_response w =
     (case (if truthy time_str
            then strptime env (py_str env date_str @ '' '' @ py_str env time_str) ''%Y-%m-%d %H:%M''
            else datetime_strptime env date_str ''%Y-%m-%d'') of
        Inl e \<Rightarrow> (Inl e, w)
      | Inr start_time \<Rightarrow>
          (case GoogleCalendarService_check_availability env svc start_time duration w of
             (Inl e, w') \<Rightarrow> (Inl e, w')
           | (Inr is_available, w') \<Rightarrow>
               (case spread_with (context_of ai_response) ''last_availability_check''
                       (PDict [(''date'', date_str), (''time'', time_str),
                               (''available'', PBool is_available)]) of
                  Inl e \<Rightarrow> (Inl e, w')
                | Inr c \<Rightarrow>
                    (Inr (response (availability_message env date_str time_str is_available) c), w'))))"

definition AppointmentAgent_check_availability ::
  "'w env \<Rightarrow> service \<Rightarrow> pyval \<Rightarrow> pydict \<Rightarrow> 'w \<Rightarrow> (exn + pyval) \<times> 'w" where
  "AppointmentAgent_check_availability env svc parameters ai_response w =
     (case parameters of
        PDict ps \<Rightarrow>
          (let date_str = dict_get ps ''date'' PNone;
               time_str = dict_get ps ''time'' PNone;
               duration = dict_get ps ''duration'' (PInt 60)
           in if \<not> truthy date_str
              then (Inr (response
                ''I need a specific date to check availability. What date are you thinking about?''
                (context_of ai_response)), w)
              else
                (case check_availability_try env svc date_str time_str duration ai_response w of
                   (Inl e, w') \<Rightarrow>
                     (Inr (response (''I had trouble checking your calendar: '' @ str_exn e)
                        (context_of ai_response)), w')
                 | (Inr r, w') \<Rightarrow> (Inr r, w')))
      | _ \<Rightarrow> (Inl (no_attribute_get parameters), w))"

subsection \<open>\<^verbatim>\<open>_book_appointment\<close>\<close>

definition required_fields :: "string list" where
  "required_fields = [''date'', ''time'', ''title'']"

text \<open>
  The call \<^verbatim>\<open>create_event(title=..., start_time=..., duration=..., description=...)\<close>
  binds its keywords to the parameters of
  \<^verbatim>\<open>def create_event(self, title, start_time, duration_minutes=60, description='')\<close>:
  a keyword that names no parameter is a \<^verbatim>\<open>TypeError\<close>, raised before the body runs.
\<close>

datatype arg = ArgVal pyval | ArgTime datetime

definition create_event_parameters :: "string list" where
  "create_event_parameters = [''title'', ''start_time'', ''duration_minutes'', ''description'']"

definition GoogleCalendarService_create_event_call ::
  "'w env \<Rightarrow> service \<Rightarrow> (string \<times> arg) list \<Rightarrow> 'w \<Rightarrow> (exn + pyval) \<times> service \<times> 'w" where
  "GoogleCalendarService_create_event_call env svc kwargs w =
     (case filter (\<lambda>k. k \<notin> set create_event_parameters) (map fst kwargs) of
        k # _ \<Rightarrow>
          (Inl (Exn TypeError
             (''GoogleCalendarService.create_event() got an unexpected keyword argument '' @ quote k)),
           svc, w)
      | [] \<Rightarrow>
          (case (map_of kwargs ''title'', map_of kwargs ''start_time'') of
             (Some (ArgVal title), Some (ArgTime start_time)) \<Rightarrow>
               (case GoogleCalendarService_create_event env svc title start_time
                        (case map_of kwargs ''duration_minutes'' of Some (ArgVal d) \<Rightarrow> d | _ \<Rightarrow> PInt 60)
                        (case map_of kwargs ''description'' of Some (ArgVal d) \<Rightarrow> d | _ \<Rightarrow> PStr [])
                        w of
                  (event_id, svc', w') \<Rightarrow> (Inr event_id, svc', w'))
           | _ \<Rightarrow>
               (Inl (Exn TypeError
                  ''GoogleCalendarService.create_event() missing required positional arguments''),
                svc, w)))"

definition booked_message :: "'w env \<Rightarrow> pyval \<Rightarrow> pyval \<Rightarrow> pyval \<Rightarrow> pyval \<Rightarrow> pyval \<Rightarrow> string" where
  "booked_message env title date time duration event_id =
     (if truthy event_id
      then ''Perfect! I've booked '' @ quote (py_str env title) @ '' for '' @ py_str env date
        @ '' at '' @ py_str env time @ ''.''
        @ (if ne_60 duration then '' Duration: '' @ py_str env duration @ '' minutes.'' else [])
        @ '' Event ID: '' @ py_str env event_id
      else ''I had trouble booking the appointment. Please try again.'')"

definition conflict_message :: "'w env \<Rightarrow> pyval \<Rightarrow> pyval \<Rightarrow> string" where
  "conflict_message env date time =
     ''There's a conflict at '' @ py_str env time @ '' on '' @ py_str env date
       @ ''. Would you like me to suggest alternative times?''"

text \<open>The \<^verbatim>\<open>try\<close> block of the handler.\<close>

definition book_appointment_try ::
  "'w env \<Rightarrow> service \<Rightarrow> pydict \<Rightarrow> pydict \<Rightarrow> 'w \<Rightarrow> (exn + pyval) \<times> service \<times> 'w" where
  "book_appointment_try env svc ps ai_response w =
     (case dict_getitem ps ''date'' of
        Inl e \<Rightarrow> (Inl e, svc, w)
      | Inr date \<Rightarrow>
     (case dict_getitem ps ''time'' of
        Inl e \<Rightarrow> (Inl e, svc, w)
      | Inr time \<Rightarrow>
     (let datetime_str = py_str env date @ '' '' @ py_str env time in
     (case strptime env datetime_str ''%Y-%m-%d %H:%M'' of
        Inl e \<Rightarrow> (Inl e, svc, w)
      | Inr start_time \<Rightarrow>
     (let duration = dict_get ps ''duration'' (PInt 60) in
     (case GoogleCalendarService_check_availability env svc start_time duration w of
        (Inl e, w1) \<Rightarrow> (Inl e, svc, w1)
      | (Inr available, w1) \<Rightarrow>
          if \<not> available
          then (Inr (response (conflict_message env date time) (context_of ai_response)), svc, w1)
          else
            (case dict_getitem ps ''title'' of
               Inl e \<Rightarrow> (Inl e, svc, w1)
             | Inr title \<Rightarrow>
            (case GoogleCalendarService_create_event_call env svc
                    [(''title'', ArgVal title), (''start_time'', ArgTime start_time),
                     (''duration'', ArgVal duration),
                     (''description'', ArgVal (dict_get ps ''description'' (PStr [])))] w1 of
               (Inl e, svc2, w2) \<Rightarrow> (Inl e, svc2, w2)
             | (Inr event_id, svc2, w2) \<Rightarrow>
                 (case spread_with (context_of ai_response) ''last_booking''
                         (PDict [(''event_id'', event_id), (''title'', title),
                                 (''datetime'', PStr datetime_str)]) of
                    Inl e \<Rightarrow> (Inl e, svc2, w2)
                  | Inr c \<Rightarrow>
                      (Inr (response (booked_message env title date time duration event_id) c),
                       svc2, w2))))))))))"

text \<open>\<^verbatim>\<open>[field for field in required_fields if not parameters.get(field)]\<close>.\<close>

definition missing_fields :: "pydict \<Rightarrow> string list" where
  "missing_fields ps = filter (\<lambda>field. \<not> truthy (dict_get ps field PNone)) required_fields"

definition AppointmentAgent_book_appointment ::
  "'w env \<Rightarrow> service \<Rightarrow> pyval \<Rightarrow> pydict \<Rightarrow> 'w \<Rightarrow> (exn + pyval) \<times> service \<times> 'w" where
  "AppointmentAgent_book_appointment env svc parameters ai_response w =
     (case parameters of
        PDict ps \<Rightarrow>
          if missing_fields ps \<noteq> []
          then
            (case spread_with (context_of ai_response) ''pending_booking'' parameters of
               Inl e \<Rightarrow> (Inl e, svc, w)
             | Inr c \<Rightarrow>
                 (Inr (response
                    (''I need more information to book the appointment. Please provide: ''
                       @ join_comma (missing_fields ps)) c), svc, w))
          else
            (case book_appointment_try env svc ps ai_response w of
               (Inl e, svc', w') \<Rightarrow>
                 (Inr (response (''I encountered an error while booking: '' @ str_exn e)
                    (context_of ai_response)), svc', w')
             | (Inr r, svc', w') \<Rightarrow> (Inr r, svc', w'))
      | _ \<Rightarrow> (Inl (no_attribute_get parameters), svc, w))"

subsection \<open>\<^verbatim>\<open>_suggest_times\<close>\<close>

definition newline :: string where
  "newline = [CHR 0x0A]"

definition suggestions_message :: "'w env \<Rightarrow> pyval \<Rightarrow> datetime list \<Rightarrow> string" where
  "suggestions_message env date_str suggestions =
     (if suggestions \<noteq> []
      then ''Here are some available times on '' @ py_str env date_str @ '':'' @ newline
        @ concat (map (\<lambda>(i, time_slot). str_nat i @ ''. '' @ strftime_HM time_slot @ newline)
            (enumerate 1 (take 5 suggestions)))
        @ newline @ ''Which time works best for you?''
      else ''I couldn't find any available slots on '' @ py_str env date_str
        @ ''. Would you like to try a different date?'')"

text \<open>The \<^verbatim>\<open>try\<close> block of the handler.\<close>

definition suggest_times_try ::
  "'w env \<Rightarrow> service \<Rightarrow> pyval \<Rightarrow> pyval \<Rightarrow> pydict \<Rightarrow> 'w \<Rightarrow> (exn + pyval) \<times> 'w" where
  "suggest_times_try env svc date_str duration ai_response w =
     (case datetime_strptime env date_str ''%Y-%m-%d'' of
        Inl e \<Rightarrow> (Inl e, w)
      | Inr target_date \<Rightarrow>
          (case GoogleCalendarService_suggest_times env svc target_date duration True w of
             (Inl e, w') \<Rightarrow> (Inl e, w')
           | (Inr suggestions, w') \<Rightarrow>
               (case spread_with (context_of ai_response) ''suggested_times''
                       (PList (map (\<lambda>t. PStr (strftime_HM t)) (take 5 suggestions))) of
                  Inl e \<Rightarrow> (Inl e, w')
                | Inr c \<Rightarrow> (Inr (response (suggestions_message env date_str suggestions) c), w'))))"

definition AppointmentAgent_suggest_times ::
  "'w env \<Rightarrow> service \<Rightarrow> pyval \<Rightarrow> pydict \<Rightarrow> 'w \<Rightarrow> (exn + pyval) \<times> 'w" where
  "AppointmentAgent_suggest_times env svc parameters ai_response w =
     (case parameters of
        PDict ps \<Rightarrow>
          (let date_str = dict_get ps ''date'' PNone;
               duration = dict_get ps ''duration'' (PInt 60)
           in if \<not> truthy date_str
              then (Inr (response ''What date would you like me to check for available times?''
                      (context_of ai_response)), w)
              else
                (case suggest_times_try env svc date_str duration ai_response w of
                   (Inl e, w') \<Rightarrow>
                     (Inr (response (''I had trouble finding available times: '' @ str_exn e)
                        (context_of ai_response)), w')
                 | (Inr r, w') \<Rightarrow> (Inr r, w')))
      | _ \<Rightarrow> (Inl (no_attribute_get parameters), w))"

subsection \<open>\<^verbatim>\<open>_execute_action\<close>\<close>

text \<open>The \<^verbatim>\<open>try\<close> block: the dispatch on the action.\<close>

definition execute_action_try ::
  "'w env \<Rightarrow> service \<Rightarrow> pydict \<Rightarrow> 'w \<Rightarrow> (exn + pyval) \<times> service \<times> 'w" where
  "execute_action_try env svc ai_response w =
     (let action = dict_get ai_response ''action'' PNone;
          parameters = dict_get ai_response ''parameters'' (PDict [])
      in if action = PStr ''check_availability''
         then (case AppointmentAgent_check_availability env svc parameters ai_response w of
                 (r, w') \<Rightarrow> (r, svc, w'))
         else if action = PStr ''book_appointment''
         then AppointmentAgent_book_appointment env svc parameters ai_response w
         else if action = PStr ''suggest_times''
         then (case AppointmentAgent_suggest_times env svc parameters ai_response w of
                 (r, w') \<Rightarrow> (r, svc, w'))
         else (Inr (PDict ai_response), svc, w))"

definition AppointmentAgent_execute_action ::
  "'w env \<Rightarrow> service \<Rightarrow> pydict \<Rightarrow> 'w \<Rightarrow> pyval \<times> service \<times> 'w" where
  "AppointmentAgent_execute_action env svc ai_response w =
     (case execute_action_try env svc ai_response w of
        (Inl e, svc', w') \<Rightarrow>
          (response (''I had trouble with that request: '' @ str_exn e @ ''. Could you please try again?'')
             (context_of ai_response), svc', w')
      | (Inr r, svc', w') \<Rightarrow> (r, svc', w'))"

subsection \<open>\<^verbatim>\<open>_get_ai_response\<close>\<close>

text \<open>
  The reply of the extractor is \<^verbatim>\<open>response.choices[0].message.content\<close>: a string or
  \<^verbatim>\<open>None\<close>, unless the request raises. Only \<^verbatim>\<open>json.JSONDecodeError\<close> is caught.
\<close>

definition fallback_response :: "string \<Rightarrow> pyval \<Rightarrow> pyval" where
  "fallback_response content context =
     PDict [(''message'', PStr content), (''action'', PStr ''general_chat''), (''context'', context)]"

text \<open>The list \<^verbatim>\<open>messages\<close> sent to the extractor, as pairs of role and content.\<close>

definition request_messages :: "'w env \<Rightarrow> string \<Rightarrow> pyval \<Rightarrow> (string \<times> string) list" where
  "request_messages env user_message context =
     [(''system'', system_prompt env)]
       @ (if truthy context
          then [(''system'', ''Previous context: '' @ json_dumps env context)] else [])
       @ [(''user'', user_message)]"

definition AppointmentAgent_get_ai_response ::
  "'w env \<Rightarrow> string \<Rightarrow> pyval \<Rightarrow> 'w \<Rightarrow> (exn + pyval) \<times> 'w" where
  "AppointmentAgent_get_ai_response env user_message context w =
     (let messages = request_messages env user_message context
      in case chat_completion env messages w of
           (Inl e, w') \<Rightarrow> (Inl e, w')
         | (Inr None, w') \<Rightarrow>
             (Inl (Exn TypeError ''the JSON object must be str, bytes or bytearray, not NoneType''), w')
         | (Inr (Some content), w') \<Rightarrow>
             (case json_loads env content of
                Inl e \<Rightarrow>
                  if exn_class_of e = JSONDecodeError
                  then (Inr (fallback_response content context), w')
                  else (Inl e, w')
              | Inr v \<Rightarrow> (Inr v, w')))"

subsection \<open>\<^verbatim>\<open>process_message\<close>\<close>

text \<open>The two assignments that fold the handler's result into \<^verbatim>\<open>ai_response\<close>.\<close>

definition merge_result :: "pydict \<Rightarrow> pyval \<Rightarrow> exn + pyval" where
  "merge_result ai_response result =
     (case result of
        PDict rd \<Rightarrow>
          (case dict_getitem ai_response ''message'' of
             Inl e \<Rightarrow> Inl e
           | Inr old_message \<Rightarrow>
               (let ai1 = dict_set ai_response ''message'' (dict_get rd ''message'' old_message);
                    ai2 = dict_set ai1 ''context'' (dict_get rd ''context'' (context_of ai1))
                in Inr (PDict ai2)))
      | _ \<Rightarrow> Inl (no_attribute_get result))"

text \<open>The \<^verbatim>\<open>try\<close> block of \<^verbatim>\<open>process_message\<close>.\<close>

definition process_message_try ::
  "'w env \<Rightarrow> service \<Rightarrow> string \<Rightarrow> pyval \<Rightarrow> 'w \<Rightarrow> (exn + pyval) \<times> service \<times> 'w" where
  "process_message_try env svc user_message context w =
     (case AppointmentAgent_get_ai_response env user_message context w of
        (Inl e, w1) \<Rightarrow> (Inl e, svc, w1)
      | (Inr ai_response, w1) \<Rightarrow>
          (case ai_response of
             PDict ai \<Rightarrow>
               (let action = dict_get ai ''action'' PNone in
                if truthy action \<and> action \<noteq> PStr ''general_chat''
                then
                  (case AppointmentAgent_execute_action env svc ai w1 of
                     (result, svc', w2) \<Rightarrow>
                       if truthy result then (merge_result ai result, svc', w2)
                       else (Inr ai_response, svc', w2))
                else (Inr ai_response, svc, w1))
           | _ \<Rightarrow> (Inl (no_attribute_get ai_response), svc, w1)))"

definition error_response :: "exn \<Rightarrow> pyval \<Rightarrow> pyval" where
  "error_response e context =
     PDict [(''message'', PStr (''I encountered an error: '' @ str_exn e @ ''. Please try again.'')),
            (''action'', PStr ''error''), (''context'', context)]"

definition process_message ::
  "'w env \<Rightarrow> service \<Rightarrow> string \<Rightarrow> pyval \<Rightarrow> 'w \<Rightarrow> (exn + pyval) \<times> service \<times> 'w" where
  "process_message env svc user_message context0 w =
     (let context = (if context0 = PNone then PDict [] else context0) in
      case process_message_try env svc user_message context w of
        (Inl e, svc', w') \<Rightarrow> (Inr (error_response e context), svc', w')
      | (Inr r, svc', w') \<Rightarrow> (Inr r, svc', w'))"

text \<open>A response is well formed when it is a dict with a string message and a dict context.\<close>

definition well_formed :: "pyval \<Rightarrow> bool" where
  "well_formed r = (case r of
      PDict d \<Rightarrow>
        (case (map_of d ''message'', map_of d ''context'') of
           (Some (PStr m), Some (PDict c)) \<Rightarrow> True
         | _ \<Rightarrow> False)
    | _ \<Rightarrow> False)"

text \<open>The end of a stored event's interval.\<close>

definition event_end :: "'w env \<Rightarrow> mock_event \<Rightarrow> exn + datetime" where
  "event_end env event = plus_minutes env (ev_start_time event) (ev_duration event)"

text \<open>
  A start time lies on the grid of the date: on that day, in the hour range, on a full
  or a half hour.
\<close>

definition on_grid :: "datetime \<Rightarrow> bool \<Rightarrow> datetime \<Rightarrow> bool" where
  "on_grid target_date business_hours_only c =
     (c div us_per_day = target_date div us_per_day
      \<and> (if business_hours_only then 9 \<le> hour c \<and> hour c < 17 else 8 \<le> hour c \<and> hour c < 20)
      \<and> c mod (30 * us_per_minute) = 0)"

text \<open>
  What a handler hands back for the reply \<open>ai\<close>: a message with either the context of
  the reply or a new dict.
\<close>

definition reply_shape :: "pydict \<Rightarrow> pyval \<Rightarrow> bool" where
  "reply_shape ai r = (\<exists>m c. r = response m c \<and> (c = context_of ai \<or> (\<exists>d. c = PDict d)))"

section \<open>A concrete world for the examples\<close>

text \<open>
  The instant at \<open>h:m\<close> on the day with the proleptic ordinal \<open>n\<close> (Python's
  \<^verbatim>\<open>date.toordinal()\<close>): 2025-03-10 is day 739320, 2026-11-04 is day 739924 and
  9999-12-31 is day 3652059.
\<close>

definition at :: "int \<Rightarrow> int \<Rightarrow> int \<Rightarrow> datetime" where
  "at n h m = (n - 1) * us_per_day + h * us_per_hour + m * us_per_minute"

text \<open>
  The examples run in a world whose state counts the calls made to the outside. The clock
  stands at noon of 2026-11-04 and the remote calendar holds no event. The parsers are
  finite tables that agree with \<^verbatim>\<open>datetime.strptime\<close>, \<^verbatim>\<open>json.loads\<close> and
  \<^verbatim>\<open>json.dumps\<close> on the texts the examples use; the extractor's reply is scripted by
  the user message. Of the float durations the world knows 60.0 and 90.5 (an hour and a
  half and thirty seconds) and infinity.
\<close>

definition demo_float_minutes :: "64 word \<Rightarrow> exn + int" where
  "demo_float_minutes f =
     (if f = 0x404E000000000000 then Inr 3600000000
      else if f = 0x4056A00000000000 then Inr 5430000000
      else Inl (Exn OverflowError ''cannot convert float infinity to integer''))"

definition demo_strptime :: "string \<Rightarrow> string \<Rightarrow> exn + datetime" where
  "demo_strptime s fmt =
     (if fmt = ''%Y-%m-%d %H:%M'' \<and> s = ''2025-03-10 14:00'' then Inr (at 739320 14 0)
      else if fmt = ''%Y-%m-%d %H:%M'' \<and> s = ''2026-11-05 10:00'' then Inr (at 739925 10 0)
      else if fmt = ''%Y-%m-%d'' \<and> s = ''2026-11-05'' then Inr (at 739925 0 0)
      else Inl (Exn ValueError (''time data '' @ quote s @ '' does not match format '' @ quote fmt)))"

definition check_tomorrow_json :: string where
  "check_tomorrow_json =
     ''{\"message\": \"Let me check.\", \"action\": \"check_availability\", ''
     @ ''\"parameters\": {\"date\": \"tomorrow\"}, \"context\": {\"user_intent\": \"check\"}}''"

definition check_tomorrow :: pydict where
  "check_tomorrow =
     [(''message'', PStr ''Let me check.''), (''action'', PStr ''check_availability''),
      (''parameters'', PDict [(''date'', PStr ''tomorrow'')]),
      (''context'', PDict [(''user_intent'', PStr ''check'')])]"

definition check_slot_json :: string where
  "check_slot_json =
     ''{\"message\": \"Checking.\", \"action\": \"check_availability\", ''
     @ ''\"parameters\": {\"date\": \"2026-11-05\", \"time\": \"10:00\"}, \"context\": {}}''"

definition check_slot :: pydict where
  "check_slot =
     [(''message'', PStr ''Checking.''), (''action'', PStr ''check_availability''),
      (''parameters'', PDict [(''date'', PStr ''2026-11-05''), (''time'', PStr ''10:00'')]),
      (''context'', PDict [])]"

definition suggest_day_json :: string where
  "suggest_day_json =
     ''{\"message\": \"Looking.\", \"action\": \"suggest_times\", ''
     @ ''\"parameters\": {\"date\": \"2026-11-05\"}, \"context\": {}}''"

definition suggest_day :: pydict where
  "suggest_day =
     [(''message'', PStr ''Looking.''), (''action'', PStr ''suggest_times''),
      (''parameters'', PDict [(''date'', PStr ''2026-11-05'')]),
      (''context'', PDict [])]"

definition demo_loads :: "string \<Rightarrow> exn + pyval" where
  "demo_loads s =
     (if s = ''{}'' then Inr (PDict [])
      else if s = ''{\"answer\": \"hello\"}'' then Inr (PDict [(''answer'', PStr ''hello'')])
      else if s = check_tomorrow_json then Inr (PDict check_tomorrow)
      else if s = check_slot_json then Inr (PDict check_slot)
      else if s = suggest_day_json then Inr (PDict suggest_day)
      else Inl (Exn JSONDecodeError ''Expecting value: line 1 column 1 (char 0)''))"

definition demo_reply :: "string \<Rightarrow> exn + string option" where
  "demo_reply user_message =
     (if user_message = ''empty'' then Inr (Some ''{}'')
      else if user_message = ''answer'' then Inr (Some ''{\"answer\": \"hello\"}'')
      else if user_message = ''tomorrow'' then Inr (Some check_tomorrow_json)
      else if user_message = ''check'' then Inr (Some check_slot_json)
      else if user_message = ''slots'' then Inr (Some suggest_day_json)
      else if user_message = ''down'' then Inl (Exn OtherError ''Connection error.'')
      else Inr (Some ''Hi there!''))"

definition demo_env :: "nat env" where
  "demo_env =
     \<lparr>now = (\<lambda>w. (at 739924 12 0, Suc w)),
      strptime = demo_strptime,
      json_loads = demo_loads,
      json_dumps = (\<lambda>v. ''{\"user_intent\": \"greeting\"}''),
      chat_completion = (\<lambda>messages w. (demo_reply (snd (last messages)), Suc w)),
      events_list = (\<lambda>time_min time_max w. (Inr (PDict [(''items'', PList [])]), Suc w)),
      events_insert = (\<lambda>title description start_time end_time w.
         (Inr (PDict [(''id'', PStr ''remote_1'')]), Suc w)),
      float_minutes = demo_float_minutes,
      py_repr = (\<lambda>v. ''[]''),
      system_prompt = ''You are an AI calendar assistant that helps users book appointments.''\<rparr>"


text \<open>The fake after one booking: \<open>Sync\<close> on 2026-11-05 from 10:00 to 11:00.\<close>

definition one_event :: MockCalendarService where
  "one_event =
     \<lparr>events = [\<lparr>ev_id = ''mock_event_1'', ev_title = PStr ''Sync'',
         ev_start_time = at 739925 10 0, ev_duration = PInt 60, ev_description = PStr []\<rparr>],
      next_event_id = 2\<rparr>"

text \<open>
  The fake holding one event whose end is beyond the last datetime: it starts at 23:30 on
  9999-12-31 and lasts 60 minutes.
\<close>

definition far_event :: MockCalendarService where
  "far_event =
     \<lparr>events = [\<lparr>ev_id = ''mock_event_1'', ev_title = PStr ''Eve'',
         ev_start_time = at 3652059 23 30, ev_duration = PInt 60, ev_description = PStr []\<rparr>],
      next_event_id = 2\<rparr>"

text \<open>Parameters of booking requests.\<close>

definition sync_at_10 :: pydict where
  "sync_at_10 = [(''date'', PStr ''2026-11-05''), (''time'', PStr ''10:00''), (''title'', PStr ''Sync'')]"

text \<open>A turn whose date does not parse: the caller's context and the parser's error.\<close>

definition greeting_context :: pyval where
  "greeting_context = PDict [(''user_intent'', PStr ''greeting'')]"

definition tomorrow_error :: exn where
  "tomorrow_error =
     Exn ValueError (''time data '' @ quote ''tomorrow'' @ '' does not match format '' @ quote ''%Y-%m-%d'')"

section \<open>Properties\<close>

subsection \<open>The loops of \<^verbatim>\<open>suggest_times\<close> are the scan of the grid\<close>

lemma suggest_append:
  "length kept < cap \<Longrightarrow>
   suggest clock check cap (xs @ ys) kept w =
   (case suggest clock check cap xs kept w of
      (Inl e, w') \<Rightarrow> (Inl e, w')
    | (Inr k, w') \<Rightarrow> if cap \<le> length k then (Inr k, w') else suggest clock check cap ys k w')"
proof (induction xs arbitrary: kept w)
  case Nil
  then show ?case by simp
next
  case (Cons c cs)
  then show ?case
    by (auto simp: Let_def split: prod.splits sum.splits)
qed

lemma suggest_subseq:
  "suggest clock check cap cs kept w = (Inr res, w') \<Longrightarrow> \<exists>xs. res = kept @ xs \<and> subseq xs cs"
proof (induction cs arbitrary: kept w)
  case Nil
  then show ?case by simp
next
  case (Cons c cs)
  obtain current w1 where cl: "clock w = (current, w1)" by (cases "clock w")
  show ?case
  proof (cases "c < current")
    case True
    with Cons.prems cl have "suggest clock check cap cs kept w1 = (Inr res, w')" by simp
    from Cons.IH [OF this] show ?thesis by (auto intro: subseq_Cons')
  next
    case False
    obtain r w2 where ch: "check c w1 = (r, w2)" by (cases "check c w1")
    with Cons.prems cl False obtain available where r: "r = Inr available"
      by (cases r) auto
    let ?k = "if available then kept @ [c] else kept"
    show ?thesis
    proof (cases "cap \<le> length ?k")
      case True
      with Cons.prems cl False ch r have "res = ?k" by (simp add: Let_def)
      then show ?thesis by (cases available) auto
    next
      case stop: False
      with Cons.prems cl False ch r have "suggest clock check cap cs ?k w2 = (Inr res, w')"
        by (simp add: Let_def)
      from Cons.IH [OF this] obtain xs where xs: "res = ?k @ xs" "subseq xs cs" by blast
      then show ?thesis by (cases available) (auto intro: subseq_Cons')
    qed
  qed
qed

lemma suggest_length:
  "suggest clock check cap cs kept w = (Inr res, w') \<Longrightarrow> length kept < cap \<Longrightarrow> length res \<le> cap"
proof (induction cs arbitrary: kept w)
  case Nil
  then show ?case by simp
next
  case (Cons c cs)
  then show ?case
    by (auto simp: Let_def split: prod.splits sum.splits if_splits)
qed

lemma suggest_scanned:
  "suggest clock check cap cs kept w = (Inr res, w') \<Longrightarrow> length kept < cap \<Longrightarrow>
   c \<in> set res \<Longrightarrow> c \<notin> set kept \<Longrightarrow>
   \<exists>pre post k1 w1. cs = pre @ c # post \<and> suggest clock check cap pre kept w = (Inr k1, w1) \<and>
      length k1 < cap \<and> \<not> c < fst (clock w1) \<and> fst (check c (snd (clock w1))) = Inr True"
proof (induction cs arbitrary: kept w)
  case Nil
  then show ?case by simp
next
  case (Cons c0 cs)
  obtain current w1 where cl: "clock w = (current, w1)" by (cases "clock w")
  show ?case
  proof (cases "c0 < current")
    case True
    with Cons.prems cl have "suggest clock check cap cs kept w1 = (Inr res, w')" by simp
    from Cons.IH [OF this Cons.prems(2,3,4)]
    obtain pre post k1 w1' where h: "cs = pre @ c # post"
      "suggest clock check cap pre kept w1 = (Inr k1, w1')" "length k1 < cap"
      "\<not> c < fst (clock w1')" "fst (check c (snd (clock w1'))) = Inr True" by blast
    have "suggest clock check cap (c0 # pre) kept w = (Inr k1, w1')"
      using cl True h(2) by simp
    with h show ?thesis by (metis append_Cons)
  next
    case False
    obtain r w2 where ch: "check c0 w1 = (r, w2)" by (cases "check c0 w1")
    with Cons.prems cl False obtain available where r: "r = Inr available"
      by (cases r) auto
    let ?k = "if available then kept @ [c0] else kept"
    show ?thesis
    proof (cases "c \<in> set ?k")
      case True
      with Cons.prems(4) have c: "c = c0" "available" by (auto split: if_splits)
      have "suggest clock check cap [] kept w = (Inr kept, w)" by simp
      moreover have "\<not> c < fst (clock w)" using cl False c by simp
      moreover have "fst (check c (snd (clock w))) = Inr True" using cl ch r c by simp
      ultimately show ?thesis using Cons.prems(2) c by (metis append_Nil)
    next
      case notin: False
      have nostop: "\<not> cap \<le> length ?k"
      proof
        assume "cap \<le> length ?k"
        with Cons.prems(1) cl False ch r have "res = ?k" by (simp add: Let_def)
        with Cons.prems(3) notin show False by simp
      qed
      with Cons.prems(1) cl False ch r have rec: "suggest clock check cap cs ?k w2 = (Inr res, w')"
        by (simp add: Let_def)
      from nostop have lt: "length ?k < cap" by simp
      from Cons.IH [OF rec lt Cons.prems(3) notin]
      obtain pre post k1 w1' where h: "cs = pre @ c # post"
        "suggest clock check cap pre ?k w2 = (Inr k1, w1')" "length k1 < cap"
        "\<not> c < fst (clock w1')" "fst (check c (snd (clock w1'))) = Inr True" by blast
      have "suggest clock check cap (c0 # pre) kept w = (Inr k1, w1')"
        using cl False ch r nostop h(2) by (simp add: Let_def)
      with h show ?thesis by (metis append_Cons)
    qed
  qed
qed

lemma mock_minute_loop_suggest:
  "length kept < 5 \<Longrightarrow>
   mock_minute_loop env self t d h [m1, m2] kept w =
   (case suggest (now env) (check_of env (Mock self) d) 5 [replace_hm t h m1, replace_hm t h m2] kept w of
      (Inl e, w') \<Rightarrow> (Inl e, w')
    | (Inr k, w') \<Rightarrow> (Inr (k, 5 \<le> length k), w'))"
  by (auto simp: check_of_def GoogleCalendarService_check_availability_def Let_def split: prod.splits sum.splits)

lemma mock_hour_loop_suggest:
  "length kept < 5 \<Longrightarrow>
   mock_hour_loop env self t d hs kept w =
   suggest (now env) (check_of env (Mock self) d) 5
     (concat (map (\<lambda>h. [replace_hm t h 0, replace_hm t h 30]) hs)) kept w"
proof (induction hs arbitrary: kept w)
  case Nil
  then show ?case by simp
next
  case (Cons h hs)
  let ?two = "[replace_hm t h 0, replace_hm t h 30]"
  let ?rest = "concat (map (\<lambda>h. [replace_hm t h 0, replace_hm t h 30]) hs)"
  let ?S = "suggest (now env) (check_of env (Mock self) d) 5"
  obtain r w' where s: "?S ?two kept w = (r, w')" by (cases "?S ?two kept w")
  have inner: "mock_minute_loop env self t d h [0, 30] kept w =
      (case r of Inl e \<Rightarrow> (Inl e, w') | Inr k \<Rightarrow> (Inr (k, 5 \<le> length k), w'))"
    using mock_minute_loop_suggest [OF Cons.prems, of env self t d h 0 30 w] s
    by (simp del: suggest.simps mock_minute_loop.simps split: sum.splits)
  have flat: "?S (?two @ ?rest) kept w =
      (case r of Inl e \<Rightarrow> (Inl e, w') | Inr k \<Rightarrow> if 5 \<le> length k then (Inr k, w') else ?S ?rest k w')"
    using suggest_append [OF Cons.prems, of "now env" "check_of env (Mock self) d" ?two ?rest w] s
    by (simp del: suggest.simps split: sum.splits)
  have "mock_hour_loop env self t d (h # hs) kept w = ?S (?two @ ?rest) kept w"
  proof (cases r)
    case (Inl e)
    then show ?thesis
      by (simp only: mock_hour_loop.simps inner flat sum.case prod.case)
  next
    case (Inr k)
    show ?thesis
    proof (cases "5 \<le> length k")
      case True
      with Inr show ?thesis
        by (simp only: mock_hour_loop.simps inner flat sum.case prod.case if_True)
    next
      case False
      then have "length k < 5" by simp
      from Cons.IH [OF this, of w'] False Inr show ?thesis
        by (simp only: mock_hour_loop.simps inner flat sum.case prod.case if_False)
    qed
  qed
  then show ?case by simp
qed

lemma live_minute_loop_suggest:
  "live_minute_loop env t d h [m1, m2] kept w =
   suggest (now env) (check_of env Live d) 10 [replace_hm t h m1, replace_hm t h m2] kept w"
  by (auto simp: check_of_def Let_def split: prod.splits sum.splits)

lemma live_hour_loop_suggest:
  "length kept < 10 \<Longrightarrow>
   live_hour_loop env t d hs kept w =
   suggest (now env) (check_of env Live d) 10
     (concat (map (\<lambda>h. [replace_hm t h 0, replace_hm t h 30]) hs)) kept w"
proof (induction hs arbitrary: kept w)
  case Nil
  then show ?case by simp
next
  case (Cons h hs)
  let ?two = "[replace_hm t h 0, replace_hm t h 30]"
  let ?rest = "concat (map (\<lambda>h. [replace_hm t h 0, replace_hm t h 30]) hs)"
  let ?S = "suggest (now env) (check_of env Live d) 10"
  obtain r w' where s: "?S ?two kept w = (r, w')" by (cases "?S ?two kept w")
  have inner: "live_minute_loop env t d h [0, 30] kept w = (r, w')"
    using live_minute_loop_suggest [of env t d h 0 30 kept w] s by simp
  have flat: "?S (?two @ ?rest) kept w =
      (case r of Inl e \<Rightarrow> (Inl e, w') | Inr k \<Rightarrow> if 10 \<le> length k then (Inr k, w') else ?S ?rest k w')"
    using suggest_append [OF Cons.prems, of "now env" "check_of env Live d" ?two ?rest w] s
    by (simp del: suggest.simps split: sum.splits)
  have "live_hour_loop env t d (h # hs) kept w = ?S (?two @ ?rest) kept w"
  proof (cases r)
    case (Inl e)
    then show ?thesis
      by (simp only: live_hour_loop.simps inner flat sum.case prod.case)
  next
    case (Inr k)
    show ?thesis
    proof (cases "10 \<le> length k")
      case True
      with Inr show ?thesis
        by (simp only: live_hour_loop.simps inner flat sum.case prod.case if_True)
    next
      case False
      then have "length k < 10" by simp
      from Cons.IH [OF this, of w'] False Inr show ?thesis
        by (simp only: live_hour_loop.simps inner flat sum.case prod.case if_False)
    qed
  qed
  then show ?case by simp
qed

lemma suggest_times_refines:
  "GoogleCalendarService_suggest_times env svc t d bh w =
   suggest (now env) (check_of env svc d) (cap_of svc) (grid t bh) [] w"
  by (cases svc)
    (simp_all add: GoogleCalendarService_suggest_times_def MockCalendarService_suggest_times_def
      grid_def mock_hour_loop_suggest live_hour_loop_suggest del: suggest.simps)

subsection \<open>Availability on the in-memory fake\<close>

lemma check_events_char:
  assumes "\<forall>ev\<in>set evs. \<exists>ee. event_end env ev = Inr ee"
  shows "check_events env s e evs =
     Inr (\<not> (\<exists>ev\<in>set evs. \<exists>ee. event_end env ev = Inr ee \<and> conflict s e (ev_start_time ev) ee))"
  using assms
  by (induction evs) (auto simp: conflict_def event_end_def split: sum.splits)

lemma plus_minutes_demo:
  "plus_minutes demo_env (at 739925 10 0) (PInt 60) = Inr (at 739925 11 0)"
  "plus_minutes demo_env (at 739925 11 0) (PInt 60) = Inr (at 739925 12 0)"
  "plus_minutes demo_env (at 739925 10 30) (PInt 60) = Inr (at 739925 11 30)"
  by (simp_all add: plus_minutes_def timedelta_minutes_def datetime_add_def valid_datetime_def
      datetime_max_def at_def us_per_day_def us_per_hour_def us_per_minute_def)

lemma check_events_prefix:
  "\<forall>p\<in>set pre. \<exists>ee. event_end env p = Inr ee \<and> \<not> conflict s e (ev_start_time p) ee \<Longrightarrow>
   check_events env s e (pre @ rest) = check_events env s e rest"
  by (induction pre) (auto simp: conflict_def event_end_def split: sum.splits)

lemma plus_minutes_int:
  assumes "0 \<le> s + n * 60000000" and "s + n * 60000000 \<le> 315537897599999999"
    and "- 1439999998560 \<le> n" and "n \<le> 1439999999999"
  shows "plus_minutes env s (PInt n) = Inr (s + n * 60000000)"
  using assms
  by (simp add: plus_minutes_def timedelta_minutes_def datetime_add_def valid_datetime_def
      datetime_max_def us_per_day_def us_per_minute_def)

text \<open>
  Claim C4, as the code has it. For every start time \<open>s\<close>, duration \<open>d\<close> and stored
  event list: if \<open>s + d\<close> is not a representable datetime,
  \<^verbatim>\<open>MockCalendarService.check_availability(s, d)\<close> raises. Otherwise it returns
  \<^verbatim>\<open>False\<close> if the hour of \<open>s\<close> is 14. Otherwise it goes through the stored events in
  order: it returns \<^verbatim>\<open>False\<close> at the first event whose interval overlaps
  \<open>[s, s + d)\<close> under the half-open test, raises if it first comes to an event whose own
  end is not representable, and returns \<^verbatim>\<open>True\<close> when no stored event overlaps. So,
  when every stored end is representable, it returns \<^verbatim>\<open>False\<close> iff the hour is 14 or
  some stored event overlaps, and events that only touch the slot at a boundary do not
  conflict.
\<close>

theorem check_availability_overlap:
  "(plus_minutes env s d = Inl x \<longrightarrow> MockCalendarService_check_availability env self s d = Inl x)
   \<and> (plus_minutes env s d = Inr e \<and> hour s = 14
        \<longrightarrow> MockCalendarService_check_availability env self s d = Inr False)
   \<and> (plus_minutes env s d = Inr e \<and> (\<forall>ev\<in>set (events self). \<exists>ee. event_end env ev = Inr ee)
        \<longrightarrow> MockCalendarService_check_availability env self s d =
             Inr (\<not> (hour s = 14 \<or>
               (\<exists>ev\<in>set (events self). \<exists>ee. event_end env ev = Inr ee \<and> conflict s e (ev_start_time ev) ee)))
           \<and> ((\<forall>ev\<in>set (events self). event_end env ev = Inr s \<or> ev_start_time ev = e)
                \<longrightarrow> MockCalendarService_check_availability env self s d = Inr (hour s \<noteq> 14)))
   \<and> (plus_minutes env s d = Inr e \<and> hour s \<noteq> 14 \<and> events self = pre @ ev # post
        \<and> (\<forall>p\<in>set pre. \<exists>ee. event_end env p = Inr ee \<and> \<not> conflict s e (ev_start_time p) ee)
        \<longrightarrow> (\<forall>y. event_end env ev = Inl y \<longrightarrow> MockCalendarService_check_availability env self s d = Inl y)
           \<and> (\<forall>ee. event_end env ev = Inr ee \<and> conflict s e (ev_start_time ev) ee
                 \<longrightarrow> MockCalendarService_check_availability env self s d = Inr False))
   \<and> event_end env ev = plus_minutes env (ev_start_time ev) (ev_duration ev)
   \<and> (0 \<le> s + n * 60000000 \<and> s + n * 60000000 \<le> 315537897599999999
        \<and> - 1439999998560 \<le> n \<and> n \<le> 1439999999999
        \<longrightarrow> plus_minutes env s (PInt n) = Inr (s + n * 60000000))
   \<and> (315537897599999999 < s + n * 60000000 \<and> 0 \<le> n \<and> n \<le> 1439999999999
        \<longrightarrow> plus_minutes env s (PInt n) = Inl (Exn OverflowError ''date value out of range''))
   \<and> (conflict a b a' b' \<longleftrightarrow> a < b' \<and> a' < b)"
proof -
  have c1: "MockCalendarService_check_availability env self s d = Inl x" if "plus_minutes env s d = Inl x"
    using that by (simp add: MockCalendarService_check_availability_def)
  have c2: "MockCalendarService_check_availability env self s d = Inr False"
    if "plus_minutes env s d = Inr e \<and> hour s = 14"
    using that by (simp add: MockCalendarService_check_availability_def)
  have c3: "MockCalendarService_check_availability env self s d =
             Inr (\<not> (hour s = 14 \<or>
               (\<exists>ev\<in>set (events self). \<exists>ee. event_end env ev = Inr ee \<and> conflict s e (ev_start_time ev) ee)))
           \<and> ((\<forall>ev\<in>set (events self). event_end env ev = Inr s \<or> ev_start_time ev = e)
                \<longrightarrow> MockCalendarService_check_availability env self s d = Inr (hour s \<noteq> 14))"
    if h: "plus_minutes env s d = Inr e \<and> (\<forall>ev\<in>set (events self). \<exists>ee. event_end env ev = Inr ee)"
  proof -
    have main: "MockCalendarService_check_availability env self s d =
           Inr (\<not> (hour s = 14 \<or>
             (\<exists>ev\<in>set (events self). \<exists>ee. event_end env ev = Inr ee \<and> conflict s e (ev_start_time ev) ee)))"
      using h check_events_char [of "events self" env s e]
      by (simp add: MockCalendarService_check_availability_def)
    have "\<not> (\<exists>ev\<in>set (events self). \<exists>ee. event_end env ev = Inr ee \<and> conflict s e (ev_start_time ev) ee)"
      if "\<forall>ev\<in>set (events self). event_end env ev = Inr s \<or> ev_start_time ev = e"
      using that by (auto simp: conflict_def)
    with main show ?thesis by simp
  qed
  have c4: "(\<forall>y. event_end env ev = Inl y \<longrightarrow> MockCalendarService_check_availability env self s d = Inl y)
           \<and> (\<forall>ee. event_end env ev = Inr ee \<and> conflict s e (ev_start_time ev) ee
                 \<longrightarrow> MockCalendarService_check_availability env self s d = Inr False)"
    if h: "plus_minutes env s d = Inr e \<and> hour s \<noteq> 14 \<and> events self = pre @ ev # post
        \<and> (\<forall>p\<in>set pre. \<exists>ee. event_end env p = Inr ee \<and> \<not> conflict s e (ev_start_time p) ee)"
  proof -
    from h have "check_events env s e (events self) = check_events env s e (ev # post)"
      using check_events_prefix [of pre env s e "ev # post"] by simp
    with h show ?thesis
      by (auto simp: MockCalendarService_check_availability_def event_end_def conflict_def)
  qed
  have c5: "event_end env ev = plus_minutes env (ev_start_time ev) (ev_duration ev)"
    by (simp add: event_end_def)
  have c6: "plus_minutes env s (PInt n) = Inr (s + n * 60000000)"
    if "0 \<le> s + n * 60000000 \<and> s + n * 60000000 \<le> 315537897599999999
        \<and> - 1439999998560 \<le> n \<and> n \<le> 1439999999999"
    using that by (simp add: plus_minutes_int)
  have c7: "plus_minutes env s (PInt n) = Inl (Exn OverflowError ''date value out of range'')"
    if "315537897599999999 < s + n * 60000000 \<and> 0 \<le> n \<and> n \<le> 1439999999999"
    using that
    by (simp add: plus_minutes_def timedelta_minutes_def datetime_add_def valid_datetime_def
        datetime_max_def us_per_day_def us_per_minute_def)
  have c8: "conflict a b a' b' \<longleftrightarrow> a < b' \<and> a' < b" by (simp add: conflict_def)
  from c1 c2 c3 c4 c5 c6 c7 c8 show ?thesis by blast
qed

text \<open>
  With \<open>Sync\<close> stored from 10:00 to 11:00, the slot from 11:00 to 12:00 is free (it
  starts where the event ends) and the slot from 10:30 to 11:30 is busy. With an event
  stored whose end is beyond year 9999, a slot at 14:00 is busy and a slot at 10:00 makes
  the call raise.
\<close>

lemma far_event_cases:
  "MockCalendarService_check_availability demo_env far_event (at 739925 14 0) (PInt 60) = Inr False"
  "MockCalendarService_check_availability demo_env far_event (at 739925 10 0) (PInt 60)
     = Inl (Exn OverflowError ''date value out of range'')"
  by code_simp+

theorem check_availability_overlap_witness:
  "MockCalendarService_check_availability demo_env one_event (at 739925 11 0) (PInt 60) = Inr True
   \<and> MockCalendarService_check_availability demo_env one_event (at 739925 10 30) (PInt 60) = Inr False
   \<and> MockCalendarService_check_availability demo_env far_event (at 739925 14 0) (PInt 60) = Inr False
   \<and> MockCalendarService_check_availability demo_env far_event (at 739925 10 0) (PInt 60)
       = Inl (Exn OverflowError ''date value out of range'')"
proof -
  have ev: "\<forall>ev\<in>set (events one_event). \<exists>ee. event_end demo_env ev = Inr ee"
    by (simp add: one_event_def event_end_def plus_minutes_demo)
  have a: "MockCalendarService_check_availability demo_env one_event (at 739925 11 0) (PInt 60) = Inr True"
    using check_availability_overlap [of demo_env "at 739925 11 0" "PInt 60" _ one_event "at 739925 12 0"]
      plus_minutes_demo(2) ev
    apply (simp add: one_event_def event_end_def plus_minutes_demo conflict_def)
    apply (simp add: hour_def at_def us_per_day_def us_per_hour_def us_per_minute_def)
    done
  have b: "MockCalendarService_check_availability demo_env one_event (at 739925 10 30) (PInt 60) = Inr False"
    using check_availability_overlap [of demo_env "at 739925 10 30" "PInt 60" _ one_event "at 739925 11 30"]
      plus_minutes_demo(3) ev
    apply (simp add: one_event_def event_end_def plus_minutes_demo conflict_def)
    apply (simp add: hour_def at_def us_per_day_def us_per_hour_def us_per_minute_def)
    done
  from a b far_event_cases show ?thesis by simp
qed

text \<open>
  The claim as stated fails where the end of the slot leaves the range of
  \<^verbatim>\<open>datetime\<close>: for 9999-12-31 23:30 and 60 minutes the call raises
  \<^verbatim>\<open>OverflowError\<close> and returns neither \<^verbatim>\<open>True\<close> nor \<^verbatim>\<open>False\<close>.
\<close>

theorem check_availability_overflow_counterexample:
  "MockCalendarService_check_availability demo_env MockCalendarService_init (at 3652059 23 30) (PInt 60)
     = Inl (Exn OverflowError ''date value out of range'')"
  by (simp add: MockCalendarService_check_availability_def plus_minutes_def timedelta_minutes_def
      datetime_add_def valid_datetime_def datetime_max_def at_def us_per_day_def us_per_hour_def
      us_per_minute_def)

subsection \<open>The grid, and what a scan can do\<close>

lemma replace_hm_on_day:
  assumes "0 \<le> h" "h < 24" "m = 0 \<or> m = 30"
  shows "replace_hm t h m div us_per_day = t div us_per_day"
    and "hour (replace_hm t h m) = h"
    and "replace_hm t h m mod (30 * us_per_minute) = 0"
proof -
  let ?r = "h * 3600000000 + m * 60000000"
  have r: "0 \<le> ?r" "?r < 86400000000" using assms by auto
  have eq: "replace_hm t h m = ?r + (t div 86400000000) * 86400000000"
    by (simp add: replace_hm_def us_per_day_def us_per_hour_def us_per_minute_def)
  have d: "(?r + (t div 86400000000) * 86400000000) div 86400000000 = t div 86400000000"
    using r by simp
  show "replace_hm t h m div us_per_day = t div us_per_day"
    unfolding eq us_per_day_def using d by simp
  have md: "(?r + (t div 86400000000) * 86400000000) mod 86400000000 = ?r"
    using r by simp
  have "?r div 3600000000 = h" using assms by auto
  then show "hour (replace_hm t h m) = h"
    unfolding hour_def eq us_per_day_def us_per_hour_def using md by simp
  have "replace_hm t h m = 1800000000 * (2 * h + (if m = 0 then 0 else 1) + 48 * (t div 86400000000))"
    unfolding eq using assms(3) by auto
  then show "replace_hm t h m mod (30 * us_per_minute) = 0"
    by (simp add: us_per_minute_def)
qed

lemma hour_range_set: "set (hour_range bh) = (if bh then {9..16} else {8..19})"
  by (simp only: hour_range_def set_upto if_distrib [of set] cong: if_cong)

lemma grid_on_grid: "c \<in> set (grid t bh) \<Longrightarrow> on_grid t bh c"
proof -
  assume "c \<in> set (grid t bh)"
  then obtain h m where h: "h \<in> set (hour_range bh)" and m: "m = 0 \<or> m = 30"
    and c: "c = replace_hm t h m"
    by (auto simp: grid_def)
  from h have hb: "0 \<le> h" "h < 24" by (auto simp: hour_range_set split: if_splits)
  from h show ?thesis
    unfolding on_grid_def c replace_hm_on_day [OF hb m]
    by (auto simp: hour_range_set split: if_splits)
qed

lemma grid_sorted: "sorted_wrt (<) (grid t bh)"
  by (cases bh)
    (simp_all add: grid_def hour_range_def upto_rec_numeral replace_hm_def us_per_hour_def us_per_minute_def)

lemma live_check_returns:
  "\<exists>b w'. GoogleCalendarService_check_availability env Live c d w = (Inr b, w')"
  by (auto simp: GoogleCalendarService_check_availability_def split: sum.splits prod.splits)

lemma suggest_total:
  "(\<And>c w. \<exists>b w'. check c w = (Inr b, w')) \<Longrightarrow> \<exists>res w'. suggest clock check cap cs kept w = (Inr res, w')"
proof (induction cs arbitrary: kept w)
  case Nil
  then show ?case by simp
next
  case (Cons c cs)
  obtain current w1 where cl: "clock w = (current, w1)" by (cases "clock w")
  obtain b w2 where ch: "check c w1 = (Inr b, w2)" using Cons.prems by blast
  show ?case
    using cl ch Cons.IH [OF Cons.prems] by (simp add: Let_def)
qed

lemma suggest_error:
  "suggest clock check cap cs kept w = (Inl e, w') \<Longrightarrow> \<exists>c\<in>set cs. \<exists>w1. fst (check c w1) = Inl e"
proof (induction cs arbitrary: kept w)
  case Nil
  then show ?case by simp
next
  case (Cons c cs)
  obtain current w1 where cl: "clock w = (current, w1)" by (cases "clock w")
  show ?case
  proof (cases "c < current")
    case True
    with Cons.prems cl have "suggest clock check cap cs kept w1 = (Inl e, w')" by simp
    from Cons.IH [OF this] show ?thesis by auto
  next
    case False
    obtain r w2 where ch: "check c w1 = (r, w2)" by (cases "check c w1")
    show ?thesis
    proof (cases r)
      case (Inl e')
      with Cons.prems cl False ch have "e' = e" by simp
      with Inl ch have "fst (check c w1) = Inl e" by simp
      then show ?thesis by auto
    next
      case (Inr available)
      let ?k = "if available then kept @ [c] else kept"
      from Cons.prems cl False ch Inr have "\<not> cap \<le> length ?k"
        by (auto simp: Let_def split: if_splits)
      with Cons.prems cl False ch Inr have "suggest clock check cap cs ?k w2 = (Inl e, w')"
        by (simp add: Let_def)
      from Cons.IH [OF this] show ?thesis by auto
    qed
  qed
qed

subsection \<open>Suggested times\<close>

lemma subseq_member: "subseq xs ys \<Longrightarrow> x \<in> set xs \<Longrightarrow> x \<in> set ys"
  by (erule list_emb_set) auto

lemma subseq_keeps_sorted: "subseq xs ys \<Longrightarrow> sorted_wrt P ys \<Longrightarrow> sorted_wrt P xs"
proof (induction rule: list_emb.induct)
  case (list_emb_Nil ys)
  then show ?case by simp
next
  case (list_emb_Cons xs ys y)
  then show ?case by simp
next
  case (list_emb_Cons2 x y xs ys)
  then show ?case by (auto dest: subseq_member)
qed

text \<open>
  Claim C1, as the code has it. For every target date, duration and flag,
  \<^verbatim>\<open>GoogleCalendarService.suggest_times\<close> is the scan of the grid with the service's own
  availability check and cap. On the remote calendar it always returns. Whenever it
  returns, the start times are strictly ascending, at most 10, each on the 30-minute grid
  of the date within the hour range, and each was, when the scan reached it (after the
  candidates before it), not before the clock's reading and reported available by
  \<^verbatim>\<open>check_availability\<close>. It raises only on the in-memory fake, and then with the
  exception of the fake's \<^verbatim>\<open>check_availability\<close> on a candidate of the grid.
\<close>

theorem suggest_times_sound:
  "GoogleCalendarService_suggest_times env svc t d bh w =
     suggest (now env) (check_of env svc d) (cap_of svc) (grid t bh) [] w
   \<and> (svc = Live \<longrightarrow> (\<exists>res w'. GoogleCalendarService_suggest_times env svc t d bh w = (Inr res, w')))
   \<and> (\<forall>res w'. GoogleCalendarService_suggest_times env svc t d bh w = (Inr res, w') \<longrightarrow>
        sorted_wrt (<) res \<and> length res \<le> 10 \<and>
        (\<forall>c\<in>set res. on_grid t bh c \<and>
           (\<exists>pre post kept w1. grid t bh = pre @ c # post
              \<and> suggest (now env) (check_of env svc d) (cap_of svc) pre [] w = (Inr kept, w1)
              \<and> \<not> c < fst (now env w1)
              \<and> fst (GoogleCalendarService_check_availability env svc c d (snd (now env w1))) = Inr True)))
   \<and> (\<forall>e w'. GoogleCalendarService_suggest_times env svc t d bh w = (Inl e, w') \<longrightarrow>
        (\<exists>mock c. svc = Mock mock \<and> c \<in> set (grid t bh)
           \<and> MockCalendarService_check_availability env mock c d = Inl e))"
proof -
  let ?S = "suggest (now env) (check_of env svc d) (cap_of svc)"
  have ref: "GoogleCalendarService_suggest_times env svc t d bh w = ?S (grid t bh) [] w"
    by (rule suggest_times_refines)
  have cap: "0 < cap_of svc" "cap_of svc \<le> 10" by (cases svc; simp)+
  have total: "\<exists>res w'. GoogleCalendarService_suggest_times env svc t d bh w = (Inr res, w')"
    if "svc = Live"
  proof -
    have "\<exists>res w'. ?S (grid t bh) [] w = (Inr res, w')"
      by (rule suggest_total) (simp add: check_of_def that live_check_returns)
    then show ?thesis unfolding ref .
  qed
  have sound: "sorted_wrt (<) res \<and> length res \<le> 10 \<and>
        (\<forall>c\<in>set res. on_grid t bh c \<and>
           (\<exists>pre post kept w1. grid t bh = pre @ c # post
              \<and> ?S pre [] w = (Inr kept, w1)
              \<and> \<not> c < fst (now env w1)
              \<and> fst (GoogleCalendarService_check_availability env svc c d (snd (now env w1))) = Inr True))"
    if r: "?S (grid t bh) [] w = (Inr res, w')" for res w'
  proof -
    from suggest_subseq [OF r] have sub: "subseq res (grid t bh)" by simp
    have s: "sorted_wrt (<) res"
      using sub grid_sorted [of t bh] by (rule subseq_keeps_sorted)
    have l: "length res \<le> 10"
      using suggest_length [OF r] cap by simp
    have g: "on_grid t bh c" if "c \<in> set res" for c
      using subseq_member [OF sub that] by (rule grid_on_grid)
    have m: "\<exists>pre post kept w1. grid t bh = pre @ c # post
              \<and> ?S pre [] w = (Inr kept, w1)
              \<and> \<not> c < fst (now env w1)
              \<and> fst (GoogleCalendarService_check_availability env svc c d (snd (now env w1))) = Inr True"
      if "c \<in> set res" for c
      using suggest_scanned [OF r _ that] cap(1) unfolding check_of_def by fastforce
    from s l g m show ?thesis by blast
  qed
  have err: "\<exists>mock c. svc = Mock mock \<and> c \<in> set (grid t bh)
           \<and> MockCalendarService_check_availability env mock c d = Inl e"
    if r: "?S (grid t bh) [] w = (Inl e, w')" for e w'
  proof -
    from suggest_error [OF r] obtain c w1 where c: "c \<in> set (grid t bh)"
      and e: "fst (check_of env svc d c w1) = Inl e" by blast
    show ?thesis
    proof (cases svc)
      case (Mock mock)
      with e have "MockCalendarService_check_availability env mock c d = Inl e"
        by (simp add: check_of_def GoogleCalendarService_check_availability_def)
      with Mock c show ?thesis by blast
    next
      case Live
      with e live_check_returns [of env c d w1] show ?thesis
        by (auto simp: check_of_def)
    qed
  qed
  from ref total sound err show ?thesis by (simp del: suggest.simps)
qed

text \<open>
  The examples: the day after the clock's date, 60 minutes, business hours, nothing
  booked.
\<close>

lemma live_demo:
  "GoogleCalendarService_suggest_times demo_env Live (at 739925 0 0) (PInt 60) True 0 =
     (Inr [at 739925 9 0, at 739925 9 30, at 739925 10 0, at 739925 10 30, at 739925 11 0,
           at 739925 11 30, at 739925 12 0, at 739925 12 30, at 739925 13 0, at 739925 13 30], 20)"
  by code_simp

lemma mock_demo:
  "GoogleCalendarService_suggest_times demo_env (Mock MockCalendarService_init) (at 739925 0 0) (PInt 60) True 0 =
     (Inr [at 739925 9 0, at 739925 9 30, at 739925 10 0, at 739925 10 30, at 739925 11 0], 5)"
  by code_simp

text \<open>On the remote calendar the ten slots from 09:00 to 13:30 come back.\<close>

theorem suggest_times_sound_witness:
  "GoogleCalendarService_suggest_times demo_env Live (at 739925 0 0) (PInt 60) True 0 =
     (Inr [at 739925 9 0, at 739925 9 30, at 739925 10 0, at 739925 10 30, at 739925 11 0,
           at 739925 11 30, at 739925 12 0, at 739925 12 30, at 739925 13 0, at 739925 13 30], 20)
   \<and> sorted_wrt (<) [at 739925 9 0, at 739925 9 30, at 739925 10 0, at 739925 10 30, at 739925 11 0,
           at 739925 11 30, at 739925 12 0, at 739925 12 30, at 739925 13 0, at 739925 13 30 :: int]
   \<and> on_grid (at 739925 0 0) True (at 739925 13 30)"
  using suggest_times_sound [of demo_env Live "at 739925 0 0" "PInt 60" True 0] live_demo
  by simp

text \<open>
  The claim as stated fails on the fake: for a duration of 10000000000 minutes the end
  of the first candidate is beyond year 9999, \<^verbatim>\<open>check_availability\<close> raises
  \<^verbatim>\<open>OverflowError\<close> and \<^verbatim>\<open>suggest_times\<close> returns no sequence.
\<close>

theorem suggest_times_raises_counterexample:
  "fst (GoogleCalendarService_suggest_times demo_env (Mock MockCalendarService_init)
          (at 739925 0 0) (PInt 10000000000) True 0)
     = Inl (Exn OverflowError ''date value out of range'')"
  by code_simp

text \<open>
  Claim C9 at a failing input. With ten free future slots the fake returns five
  suggestions and the remote implementation ten, although the fake's own
  \<^verbatim>\<open>check_availability\<close> reports the sixth slot, 11:30, free.
\<close>

theorem mock_suggest_times_caps_at_five:
  "fst (GoogleCalendarService_suggest_times demo_env (Mock MockCalendarService_init)
          (at 739925 0 0) (PInt 60) True 0)
     = Inr [at 739925 9 0, at 739925 9 30, at 739925 10 0, at 739925 10 30, at 739925 11 0]
   \<and> fst (GoogleCalendarService_suggest_times demo_env Live (at 739925 0 0) (PInt 60) True 0)
     = Inr [at 739925 9 0, at 739925 9 30, at 739925 10 0, at 739925 10 30, at 739925 11 0,
            at 739925 11 30, at 739925 12 0, at 739925 12 30, at 739925 13 0, at 739925 13 30]
   \<and> MockCalendarService_check_availability demo_env MockCalendarService_init (at 739925 11 30) (PInt 60)
     = Inr True"
  by code_simp

subsection \<open>Booking\<close>

lemma map_of_dict_set: "map_of (dict_set d k v) k' = (if k' = k then Some v else map_of d k')"
  by (induction d) auto

lemma book_call_raises:
  "GoogleCalendarService_create_event_call env svc
     [(''title'', a), (''start_time'', b), (''duration'', c), (''description'', d)] w =
   (Inl (Exn TypeError
      (''GoogleCalendarService.create_event() got an unexpected keyword argument '' @ quote ''duration'')),
    svc, w)"
  by (simp add: GoogleCalendarService_create_event_call_def create_event_parameters_def)


lemma book_try_busy:
  assumes "map_of ps ''date'' = Some date" and "map_of ps ''time'' = Some time"
    and "strptime env (py_str env date @ '' '' @ py_str env time) ''%Y-%m-%d %H:%M'' = Inr start_time"
    and "GoogleCalendarService_check_availability env svc start_time
           (case map_of ps ''duration'' of Some d \<Rightarrow> d | None \<Rightarrow> PInt 60) w = (Inr False, w1)"
  shows "book_appointment_try env svc ps ai_response w =
      (Inr (PDict [(''message'', PStr (''There's a conflict at '' @ py_str env time @ '' on ''
                      @ py_str env date @ ''. Would you like me to suggest alternative times?'')),
                   (''context'', (case map_of ai_response ''context'' of Some c \<Rightarrow> c | None \<Rightarrow> PDict []))]),
       svc, w1)"
  using assms
  by (simp add: book_appointment_try_def dict_getitem_def dict_get_def response_def
      conflict_message_def context_of_def)

lemma missing_fields_none:
  assumes "map_of ps ''date'' = Some date" "truthy date"
    and "map_of ps ''time'' = Some time" "truthy time"
    and "map_of ps ''title'' = Some title" "truthy title"
  shows "missing_fields ps = []"
  using assms by (simp add: missing_fields_def required_fields_def dict_get_def)

text \<open>
  Claim C3. For every \<^verbatim>\<open>book_appointment\<close> request with date, time and title whose
  slot \<^verbatim>\<open>check_availability\<close> reports busy, the handler returns the conflict message
  that offers alternative times, with the context of the request; the service comes back
  unchanged (no event is stored, \<^verbatim>\<open>create_event\<close> is not called) and the world is
  the one the availability check left.
\<close>

theorem book_busy_slot_refused:
  assumes "map_of ps ''date'' = Some date" and "truthy date"
    and "map_of ps ''time'' = Some time" and "truthy time"
    and "map_of ps ''title'' = Some title" and "truthy title"
    and "strptime env (py_str env date @ '' '' @ py_str env time) ''%Y-%m-%d %H:%M'' = Inr start_time"
    and "GoogleCalendarService_check_availability env svc start_time
           (case map_of ps ''duration'' of Some d \<Rightarrow> d | None \<Rightarrow> PInt 60) w = (Inr False, w1)"
  shows "AppointmentAgent_book_appointment env svc (PDict ps) ai_response w =
      (Inr (PDict [(''message'', PStr (''There's a conflict at '' @ py_str env time @ '' on ''
                      @ py_str env date @ ''. Would you like me to suggest alternative times?'')),
                   (''context'', (case map_of ai_response ''context'' of Some c \<Rightarrow> c | None \<Rightarrow> PDict []))]),
       svc, w1)"
  using missing_fields_none [OF assms(1-6)] book_try_busy [OF assms(1,3,7,8), of ai_response]
  by (simp add: AppointmentAgent_book_appointment_def)

text \<open>
  The scenario of the specification: date 2025-03-10, time 14:00, title Sync, default
  duration, against the fresh in-memory fake, which reports every start in hour 14 busy.
\<close>

theorem book_busy_slot_refused_witness:
  "AppointmentAgent_book_appointment demo_env (Mock MockCalendarService_init)
     (PDict [(''date'', PStr ''2025-03-10''), (''time'', PStr ''14:00''), (''title'', PStr ''Sync'')])
     [(''message'', PStr ''Booking.''), (''context'', PDict [(''user_intent'', PStr ''book'')])] 0 =
   (Inr (PDict
      [(''message'',
        PStr ''There's a conflict at 14:00 on 2025-03-10. Would you like me to suggest alternative times?''),
       (''context'', PDict [(''user_intent'', PStr ''book'')])]),
    Mock \<lparr>events = [], next_event_id = 1\<rparr>, 0)"
proof -
  let ?ps = "[(''date'', PStr ''2025-03-10''), (''time'', PStr ''14:00''), (''title'', PStr ''Sync'')]"
  have m1: "map_of ?ps ''date'' = Some (PStr ''2025-03-10'')" and t1: "truthy (PStr ''2025-03-10'')"
    and m2: "map_of ?ps ''time'' = Some (PStr ''14:00'')" and t2: "truthy (PStr ''14:00'')"
    and m3: "map_of ?ps ''title'' = Some (PStr ''Sync'')" and t3: "truthy (PStr ''Sync'')"
    by simp_all
  have p: "strptime demo_env (py_str demo_env (PStr ''2025-03-10'') @ '' '' @ py_str demo_env (PStr ''14:00''))
      ''%Y-%m-%d %H:%M'' = Inr (at 739320 14 0)"
    by (simp add: demo_env_def demo_strptime_def py_str_def)
  have c: "GoogleCalendarService_check_availability demo_env (Mock MockCalendarService_init) (at 739320 14 0)
             (case map_of ?ps ''duration'' of Some d \<Rightarrow> d | None \<Rightarrow> PInt 60) 0 = (Inr False, 0)"
    by (simp add: GoogleCalendarService_check_availability_def MockCalendarService_check_availability_def
        plus_minutes_def timedelta_minutes_def datetime_add_def valid_datetime_def datetime_max_def
        hour_def at_def us_per_day_def us_per_hour_def us_per_minute_def)
  have "AppointmentAgent_book_appointment demo_env (Mock MockCalendarService_init) (PDict ?ps)
     [(''message'', PStr ''Booking.''), (''context'', PDict [(''user_intent'', PStr ''book'')])] 0 =
     (Inr (PDict [(''message'', PStr (''There's a conflict at '' @ py_str demo_env (PStr ''14:00'') @ '' on ''
                      @ py_str demo_env (PStr ''2025-03-10'')
                      @ ''. Would you like me to suggest alternative times?'')),
                   (''context'', (case map_of [(''message'', PStr ''Booking.''),
                        (''context'', PDict [(''user_intent'', PStr ''book'')])] ''context'' of
                      Some c \<Rightarrow> c | None \<Rightarrow> PDict []))]),
       Mock MockCalendarService_init, 0)"
    by (rule book_busy_slot_refused [OF m1 t1 m2 t2 m3 t3 p c])
  then show ?thesis
    by (simp add: py_str_def MockCalendarService_init_def)
qed





text \<open>
  Claim C2 at a failing input: date 2026-11-05, time 10:00, title Sync on the fresh
  fake. The slot is free, but the call of \<^verbatim>\<open>create_event\<close> passes the keyword
  \<^verbatim>\<open>duration\<close> where the method's parameter is \<^verbatim>\<open>duration_minutes\<close>: it raises
  \<^verbatim>\<open>TypeError\<close>, the handler answers with its apology, and no event is stored.
  \<^verbatim>\<open>MockCalendarService.create_event\<close> itself, had it been reached, would have stored
  the event.
\<close>

theorem book_free_slot_fails:
  "AppointmentAgent_book_appointment demo_env (Mock MockCalendarService_init) (PDict sync_at_10)
     [(''context'', PDict [])] 0 =
   (Inr (response
      (''I encountered an error while booking: ''
         @ ''GoogleCalendarService.create_event() got an unexpected keyword argument ''
         @ quote ''duration'')
      (PDict [])), Mock MockCalendarService_init, 0)
   \<and> GoogleCalendarService_check_availability demo_env (Mock MockCalendarService_init)
        (at 739925 10 0) (PInt 60) 0 = (Inr True, 0)
   \<and> snd (MockCalendarService_create_event MockCalendarService_init (PStr ''Sync'') (at 739925 10 0)
        (PInt 60) (PStr [])) = one_event"
  by code_simp

subsection \<open>Failures inside a handler\<close>


lemma merge_response:
  "merge_result ai (response m c) =
     (case map_of ai ''message'' of
        None \<Rightarrow> Inl (Exn KeyError (quote ''message''))
      | Some old \<Rightarrow> Inr (PDict (dict_set (dict_set ai ''message'' (PStr m)) ''context'' c)))"
  by (simp add: merge_result_def response_def dict_getitem_def dict_get_def split: option.splits)























lemma tomorrow_reply:
  "AppointmentAgent_get_ai_response demo_env ''tomorrow''
     (if greeting_context = PNone then PDict [] else greeting_context) 0 = (Inr (PDict check_tomorrow), 1)"
  by code_simp

subsection \<open>The whole turn\<close>

lemma reply_shapeI1: "reply_shape ai (response m (context_of ai))"
  by (auto simp: reply_shape_def)

lemma reply_shape_spread: "spread_with c k v = Inr c' \<Longrightarrow> reply_shape ai (response m c')"
  by (cases c) (auto simp: reply_shape_def)

lemma check_availability_shape:
  "AppointmentAgent_check_availability env svc parameters ai w = (Inr r, w') \<Longrightarrow> reply_shape ai r"
  by (auto simp: AppointmentAgent_check_availability_def check_availability_try_def Let_def
      reply_shapeI1 reply_shape_spread split: pyval.splits if_splits sum.splits prod.splits)

lemma book_appointment_shape:
  "AppointmentAgent_book_appointment env svc parameters ai w = (Inr r, svc', w') \<Longrightarrow> reply_shape ai r"
  by (auto simp: AppointmentAgent_book_appointment_def book_appointment_try_def Let_def
      book_call_raises reply_shapeI1 reply_shape_spread
      split: pyval.splits if_splits sum.splits prod.splits)

lemma suggest_times_shape:
  "AppointmentAgent_suggest_times env svc parameters ai w = (Inr r, w') \<Longrightarrow> reply_shape ai r"
  by (auto simp: AppointmentAgent_suggest_times_def suggest_times_try_def Let_def
      reply_shapeI1 reply_shape_spread split: pyval.splits if_splits sum.splits prod.splits)

lemma execute_action_shape:
  "AppointmentAgent_execute_action env svc ai w = (r, svc', w') \<Longrightarrow> r = PDict ai \<or> reply_shape ai r"
  by (auto simp: AppointmentAgent_execute_action_def execute_action_try_def Let_def reply_shapeI1
      dest: check_availability_shape book_appointment_shape suggest_times_shape
      split: if_splits sum.splits prod.splits)

lemma merge_result_dict: "merge_result ai r = Inr r' \<Longrightarrow> \<exists>d. r' = PDict d"
  by (auto simp: merge_result_def Let_def split: pyval.splits sum.splits)

lemma merge_result_well_formed:
  assumes "well_formed (PDict ai)" and "r = PDict ai \<or> reply_shape ai r"
    and "merge_result ai r = Inr r'"
  shows "well_formed r'"
proof -
  from assms(1) obtain m0 c0 where ai: "map_of ai ''message'' = Some (PStr m0)"
    "map_of ai ''context'' = Some (PDict c0)"
    by (auto simp: well_formed_def split: option.splits pyval.splits)
  then have ctx: "context_of ai = PDict c0" by (simp add: context_of_def dict_get_def)
  from assms(2) show ?thesis
  proof
    assume "r = PDict ai"
    with assms(3) ai show ?thesis
      by (auto simp: merge_result_def dict_getitem_def dict_get_def context_of_def Let_def
          well_formed_def map_of_dict_set)
  next
    assume "reply_shape ai r"
    then obtain m c d where "r = response m c" "c = PDict d"
      using ctx by (auto simp: reply_shape_def)
    with assms(3) ai show ?thesis
      by (auto simp: merge_response well_formed_def map_of_dict_set)
  qed
qed

lemma process_message_try_shape:
  assumes "process_message_try env svc user_message context w = (Inr r, svc', w')"
  shows "(\<exists>d. r = PDict d) \<and>
     ((\<forall>v. fst (AppointmentAgent_get_ai_response env user_message context w) = Inr v \<longrightarrow> well_formed v)
        \<longrightarrow> well_formed r)"
proof -
  obtain g w1 where g: "AppointmentAgent_get_ai_response env user_message context w = (g, w1)"
    by (cases "AppointmentAgent_get_ai_response env user_message context w")
  with assms obtain ai where ai: "g = Inr (PDict ai)"
    by (auto simp: process_message_try_def split: sum.splits pyval.splits)
  show ?thesis
  proof (cases "truthy (dict_get ai ''action'' PNone) \<and> dict_get ai ''action'' PNone \<noteq> PStr ''general_chat''")
    case False
    with assms g ai have "r = PDict ai"
      by (auto simp: process_message_try_def)
    with g ai show ?thesis by simp
  next
    case True
    obtain x svc2 w2 where x: "AppointmentAgent_execute_action env svc ai w1 = (x, svc2, w2)"
      by (cases "AppointmentAgent_execute_action env svc ai w1") auto
    show ?thesis
    proof (cases "truthy x")
      case False
      with assms g ai True x have "r = PDict ai"
        by (auto simp: process_message_try_def)
      with g ai show ?thesis by simp
    next
      case t: True
      with assms g ai True x have m: "merge_result ai x = Inr r"
        by (auto simp: process_message_try_def)
      from merge_result_well_formed [OF _ execute_action_shape [OF x] m] merge_result_dict [OF m] g ai
      show ?thesis by simp
    qed
  qed
qed

text \<open>
  Claim C5, as the code has it. For every user message, prior context, extractor and
  backend, \<^verbatim>\<open>process_message\<close> raises nothing and returns a dict. The dict holds a
  string message and a dict context whenever the prior context is a dict (or
  \<^verbatim>\<open>None\<close>) and the extractor's reply, where \<^verbatim>\<open>_get_ai_response\<close> returns one, is
  itself a dict with a string message and a dict context.
\<close>

theorem process_message_returns:
  "\<exists>d. fst (process_message env svc user_message context0 w) = Inr (PDict d) \<and>
     ((context0 = PNone \<or> (\<exists>c. context0 = PDict c)) \<and>
      (\<forall>v. fst (AppointmentAgent_get_ai_response env user_message
                 (if context0 = PNone then PDict [] else context0) w) = Inr v \<longrightarrow> well_formed v)
      \<longrightarrow> well_formed (PDict d))"
proof -
  let ?c = "if context0 = PNone then PDict [] else context0"
  obtain r svc' w' where t: "process_message_try env svc user_message ?c w = (r, svc', w')"
    by (cases "process_message_try env svc user_message ?c w") auto
  show ?thesis
  proof (cases r)
    case (Inl e)
    with t have "fst (process_message env svc user_message context0 w) = Inr (error_response e ?c)"
      by (simp add: process_message_def)
    moreover have "well_formed (error_response e ?c)" if "context0 = PNone \<or> (\<exists>c. context0 = PDict c)"
      using that by (auto simp: error_response_def well_formed_def)
    ultimately show ?thesis by (auto simp: error_response_def)
  next
    case (Inr v)
    with t have "fst (process_message env svc user_message context0 w) = Inr v"
      by (simp add: process_message_def)
    with process_message_try_shape [OF t [unfolded Inr]] show ?thesis by auto
  qed
qed

text \<open>The turn about "tomorrow" again: the reply is well formed, and so is the result.\<close>

lemma tomorrow_turn:
  "process_message demo_env (Mock MockCalendarService_init) ''tomorrow'' greeting_context 0 =
     (Inr (PDict
        [(''message'', PStr (''I had trouble checking your calendar: '' @ str_exn tomorrow_error)),
         (''action'', PStr ''check_availability''),
         (''parameters'', PDict [(''date'', PStr ''tomorrow'')]),
         (''context'', PDict [(''user_intent'', PStr ''check'')])]),
      Mock MockCalendarService_init, 1)"
  by code_simp

theorem process_message_returns_witness:
  "well_formed (PDict
        [(''message'', PStr (''I had trouble checking your calendar: '' @ str_exn tomorrow_error)),
         (''action'', PStr ''check_availability''),
         (''parameters'', PDict [(''date'', PStr ''tomorrow'')]),
         (''context'', PDict [(''user_intent'', PStr ''check'')])])"
proof -
  have c: "greeting_context = PNone \<or> (\<exists>c. greeting_context = PDict c)"
    by (simp add: greeting_context_def)
  have w: "\<forall>v. fst (AppointmentAgent_get_ai_response demo_env ''tomorrow''
                 (if greeting_context = PNone then PDict [] else greeting_context) 0) = Inr v \<longrightarrow> well_formed v"
    by (simp add: tomorrow_reply well_formed_def check_tomorrow_def)
  from process_message_returns [of demo_env "Mock MockCalendarService_init" "''tomorrow''" greeting_context 0]
    c w tomorrow_turn
  show ?thesis by simp
qed

text \<open>
  The claim as stated fails when the extractor answers with the JSON object \<^verbatim>\<open>{}\<close>:
  it names no action, so it is returned as it is, without message and without context.
\<close>

theorem reply_without_message_counterexample:
  "fst (process_message demo_env (Mock MockCalendarService_init) ''empty'' PNone 0) = Inr (PDict [])
   \<and> \<not> well_formed (PDict [])"
  by code_simp

text \<open>
  Claim C8, as the code has it. For every extractor output that is not parseable as
  JSON (\<^verbatim>\<open>json.loads\<close> raises \<^verbatim>\<open>JSONDecodeError\<close>), the turn returns the action
  \<^verbatim>\<open>general_chat\<close> with the raw text as message and the prior context; nothing is
  raised, and no backend call is made.
\<close>

theorem non_json_reply_falls_back:
  assumes "context = (if context0 = PNone then PDict [] else context0)"
    and "chat_completion env (request_messages env user_message context) w = (Inr (Some content), w1)"
    and "json_loads env content = Inl e"
    and "exn_class_of e = JSONDecodeError"
  shows "process_message env svc user_message context0 w =
           (Inr (PDict [(''message'', PStr content), (''action'', PStr ''general_chat''),
                        (''context'', context)]), svc, w1)"
  using assms
  by (simp add: process_message_def process_message_try_def AppointmentAgent_get_ai_response_def
      fallback_response_def dict_get_def)

text \<open>The extractor answers in plain text.\<close>

theorem non_json_reply_falls_back_witness:
  "process_message demo_env (Mock MockCalendarService_init) ''hello'' PNone 0 =
     (Inr (PDict [(''message'', PStr ''Hi there!''), (''action'', PStr ''general_chat''),
                  (''context'', PDict [])]), Mock MockCalendarService_init, 1)"
proof -
  have c: "PDict [] = (if PNone = PNone then PDict [] else PNone)" by simp
  have r: "chat_completion demo_env (request_messages demo_env ''hello'' (PDict [])) 0
      = (Inr (Some ''Hi there!''), 1)"
    by (simp add: demo_env_def demo_reply_def request_messages_def)
  have j: "json_loads demo_env ''Hi there!'' = Inl (Exn JSONDecodeError ''Expecting value: line 1 column 1 (char 0)'')"
    by (simp add: demo_env_def demo_loads_def check_tomorrow_json_def check_slot_json_def
        suggest_day_json_def)
  have k: "exn_class_of (Exn JSONDecodeError ''Expecting value: line 1 column 1 (char 0)'') = JSONDecodeError"
    by simp
  show ?thesis
    using non_json_reply_falls_back [OF c r j k, of "Mock MockCalendarService_init"] by simp
qed

text \<open>
  The claim as stated fails for a reply that is JSON but not of the expected schema: the
  object \<^verbatim>\<open>{"answer": "hello"}\<close> is returned as it is, with no action and no
  message.
\<close>

theorem json_reply_off_schema_counterexample:
  "json_loads demo_env ''{\"answer\": \"hello\"}'' = Inr (PDict [(''answer'', PStr ''hello'')])
   \<and> fst (process_message demo_env (Mock MockCalendarService_init) ''answer'' PNone 0)
       = Inr (PDict [(''answer'', PStr ''hello'')])
   \<and> dict_get [(''answer'', PStr ''hello'')] ''action'' PNone \<noteq> PStr ''general_chat''
   \<and> dict_get [(''answer'', PStr ''hello'')] ''message'' PNone \<noteq> PStr ''{\"answer\": \"hello\"}''"
  by code_simp

text \<open>
  Claim C10, as the code has it. When an exception escapes the \<^verbatim>\<open>try\<close> block of
  \<^verbatim>\<open>process_message\<close>, in particular when the extractor's request raises, the turn
  returns the action \<^verbatim>\<open>error\<close>, which is none of the four documented actions, a
  message that embeds the text of the exception, and as context the caller's context,
  or the empty dict when the caller passed \<^verbatim>\<open>None\<close>.
\<close>

theorem escaping_exception_gives_error_response:
  "(prior \<noteq> PNone
      \<and> chat_completion env (request_messages env user_message prior) w = (Inl (Exn c t), w')
     \<longrightarrow> process_message env svc user_message prior w =
          (Inr (PDict [(''message'', PStr (''I encountered an error: '' @ t @ ''. Please try again.'')),
                       (''action'', PStr ''error''), (''context'', prior)]), svc, w'))
   \<and> (chat_completion env (request_messages env user_message (PDict [])) w = (Inl (Exn c t), w')
     \<longrightarrow> process_message env svc user_message PNone w =
          (Inr (PDict [(''message'', PStr (''I encountered an error: '' @ t @ ''. Please try again.'')),
                       (''action'', PStr ''error''), (''context'', PDict [])]), svc, w'))
   \<and> (prior \<noteq> PNone
      \<and> process_message_try env svc user_message prior w = (Inl (Exn c t), svc', w')
     \<longrightarrow> process_message env svc user_message prior w =
          (Inr (PDict [(''message'', PStr (''I encountered an error: '' @ t @ ''. Please try again.'')),
                       (''action'', PStr ''error''), (''context'', prior)]), svc', w'))
   \<and> (process_message_try env svc user_message (PDict []) w = (Inl (Exn c t), svc', w')
     \<longrightarrow> process_message env svc user_message PNone w =
          (Inr (PDict [(''message'', PStr (''I encountered an error: '' @ t @ ''. Please try again.'')),
                       (''action'', PStr ''error''), (''context'', PDict [])]), svc', w'))
   \<and> ''error'' \<notin> {''check_availability'', ''book_appointment'', ''suggest_times'', ''general_chat''}"
  by (simp add: process_message_def process_message_try_def AppointmentAgent_get_ai_response_def
      error_response_def)

text \<open>The extractor's endpoint is down, with and without a prior context.\<close>

theorem escaping_exception_gives_error_response_witness:
  "process_message demo_env (Mock MockCalendarService_init) ''down''
      (PDict [(''user_intent'', PStr ''greeting'')]) 0 =
     (Inr (PDict [(''message'', PStr ''I encountered an error: Connection error.. Please try again.''),
                  (''action'', PStr ''error''),
                  (''context'', PDict [(''user_intent'', PStr ''greeting'')])]),
      Mock MockCalendarService_init, 1)
   \<and> process_message demo_env (Mock MockCalendarService_init) ''down'' PNone 0 =
     (Inr (PDict [(''message'', PStr ''I encountered an error: Connection error.. Please try again.''),
                  (''action'', PStr ''error''), (''context'', PDict [])]),
      Mock MockCalendarService_init, 1)"
proof -
  let ?g = "PDict [(''user_intent'', PStr ''greeting'')]"
  have r: "chat_completion demo_env (request_messages demo_env ''down'' ?g) 0
      = (Inl (Exn OtherError ''Connection error.''), 1)"
    "chat_completion demo_env (request_messages demo_env ''down'' (PDict [])) 0
      = (Inl (Exn OtherError ''Connection error.''), 1)"
    by (simp_all add: demo_env_def demo_reply_def request_messages_def)
  have n: "?g \<noteq> PNone" by simp
  from escaping_exception_gives_error_response [where env = demo_env and prior = "?g"
        and user_message = "''down''" and w = 0 and c = OtherError and t = "''Connection error.''"
        and w' = 1 and svc = "Mock MockCalendarService_init"] r n
  show ?thesis by simp
qed

text \<open>
  The claim as stated fails for a caller that passes \<^verbatim>\<open>None\<close>: the returned context
  is the empty dict.
\<close>

theorem none_context_counterexample:
  "process_message demo_env (Mock MockCalendarService_init) ''down'' PNone 0 =
     (Inr (PDict [(''message'', PStr ''I encountered an error: Connection error.. Please try again.''),
                  (''action'', PStr ''error''), (''context'', PDict [])]),
      Mock \<lparr>events = [], next_event_id = 1\<rparr>, 1)
   \<and> PDict [] \<noteq> PNone"
  by code_simp

end
